theory Spec2Isabelle
  imports Complex_Main "HOL-Library.Monad_Syntax"
begin

section \<open>Tensors\<close>

text \<open>
  The FUNSD notebook (\<^verbatim>\<open>Funsd_Object_Detection_bert_large.ipynb\<close>) computes on torch
  tensors. A tensor of rank 2, shape \<open>(B, d)\<close>, is a list of \<open>B\<close> rows of \<open>d\<close> numbers; a
  tensor of rank 3, shape \<open>(B, H, W)\<close>, is a list of \<open>B\<close> matrices. The entries are real
  numbers: rounding, infinities and NaN of 32-bit floats are outside this model. A torch
  operation that raises (RuntimeError on a shape it does not accept, IndexError) returns
  \<open>None\<close>. A batch that a DataLoader yields holds at least one example; the width of an
  empty list of rows is not recorded here, and \<^verbatim>\<open>forward\<close> raises on it at the first
  pooling.
\<close>

type_synonym tensor2 = "real list list"
type_synonym tensor3 = "real list list list"

definition has_shape :: "nat \<Rightarrow> nat \<Rightarrow> tensor2 \<Rightarrow> bool" where
  "has_shape n d t = (length t = n \<and> list_all (\<lambda>r. length r = d) t)"

subsection \<open>torch.nn.Linear\<close>

text \<open>
  \<^verbatim>\<open>torch.nn.Linear(n, m)\<close> holds a weight of shape \<open>(m, n)\<close> and a bias of shape \<open>(m)\<close>;
  \<open>weight L i j\<close> is read for \<open>i < m\<close> and \<open>j < n\<close> only. It maps the last dimension of its
  input, which must be \<open>n\<close>: \<open>y\<^sub>i = (\<Sum>j. x\<^sub>j * weight\<^sub>i\<^sub>j) + bias\<^sub>i\<close>.
\<close>

record linear =
  in_features :: nat
  out_features :: nat
  weight :: "nat \<Rightarrow> nat \<Rightarrow> real"
  bias :: "nat \<Rightarrow> real"

definition Linear :: "nat \<Rightarrow> nat \<Rightarrow> (nat \<Rightarrow> nat \<Rightarrow> real) \<Rightarrow> (nat \<Rightarrow> real) \<Rightarrow> linear" where
  "Linear n m w b = \<lparr>in_features = n, out_features = m, weight = w, bias = b\<rparr>"

definition linear_row :: "linear \<Rightarrow> real list \<Rightarrow> real list" where
  "linear_row L r =
     map (\<lambda>i. sum_list (map (\<lambda>j. r ! j * weight L i j) [0..<in_features L]) + bias L i)
       [0..<out_features L]"

definition apply_linear :: "linear \<Rightarrow> tensor2 \<Rightarrow> tensor2 option" where
  "apply_linear L x =
     (if list_all (\<lambda>r. length r = in_features L) x then Some (map (linear_row L) x)
      else None)"

subsection \<open>torch.nn.Tanh and torch.nn.Dropout\<close>

definition Tanh :: "tensor2 \<Rightarrow> tensor2" where
  "Tanh x = map (map tanh) x"

text \<open>
  \<^verbatim>\<open>torch.nn.Dropout(p)\<close>: in training mode every entry is kept with probability \<open>1 - p\<close>
  and scaled by \<open>1 / (1 - p)\<close>, or set to zero; in evaluation mode the input is returned as
  it is. The draw of the random generator is an argument: \<open>keep i j\<close> tells whether entry
  \<open>(i, j)\<close> is kept.
\<close>

definition Dropout :: "real \<Rightarrow> bool \<Rightarrow> (nat \<Rightarrow> nat \<Rightarrow> bool) \<Rightarrow> tensor2 \<Rightarrow> tensor2" where
  "Dropout p train keep x =
     (if train
      then map (\<lambda>i. map (\<lambda>j. if keep i j then x ! i ! j / (1 - p) else 0)
                  [0..<length (x ! i)]) [0..<length x]
      else x)"

subsection \<open>Stacking a pair, max-pooling, concatenation\<close>

text \<open>
  \<^verbatim>\<open>torch.cat((a.unsqueeze(1), b.unsqueeze(1)), 1)\<close> for \<open>a\<close> of shape \<open>(B, d)\<close> and \<open>b\<close> of
  shape \<open>(B', d')\<close>: the operands \<open>(B, 1, d)\<close> and \<open>(B', 1, d')\<close> must agree outside
  dimension 1; the result has shape \<open>(B, 2, d)\<close>.
\<close>

definition cat_unsqueeze :: "tensor2 \<Rightarrow> tensor2 \<Rightarrow> tensor3 option" where
  "cat_unsqueeze a b =
     (if list_all2 (\<lambda>r s. length r = length s) a b then Some (map2 (\<lambda>r s. [r, s]) a b)
      else None)"

text \<open>
  \<^verbatim>\<open>torch.nn.MaxPool2d((2,1), stride=None)\<close>: the stride is the kernel size. A rank-3 input
  \<open>(C, H, W)\<close> is one image with \<open>C\<close> channels; the output \<open>(C, H div 2, W)\<close> holds the
  maximum of each pair of consecutive rows, entry by entry. An input without entries
  (\<open>C\<close>, \<open>H\<close> or \<open>W\<close> zero) and an output without rows are errors.
\<close>

fun pool_rows :: "real list list \<Rightarrow> real list list" where
  "pool_rows (r # s # rest) = map2 max r s # pool_rows rest"
| "pool_rows _ = []"

definition pooling :: "tensor3 \<Rightarrow> tensor3 option" where
  "pooling t =
     (if t \<noteq> [] \<and> list_all (\<lambda>c. 2 \<le> length c \<and> list_all (\<lambda>r. r \<noteq> []) c) t
      then Some (map pool_rows t) else None)"

text \<open>
  \<^verbatim>\<open>.squeeze(1)\<close> removes dimension 1 when its size is 1. Otherwise torch returns the rank-3
  tensor unchanged, which has no rank-2 value here: \<open>None\<close>. The pooled pair always has
  size 1 there (lemma \<open>pooled_pair_squeezes\<close> below), so that branch is never taken in
  \<open>forward\<close>.
\<close>

definition squeeze1 :: "tensor3 \<Rightarrow> tensor2 option" where
  "squeeze1 t = (if list_all (\<lambda>c. length c = 1) t then Some (map hd t) else None)"

text \<open>\<^verbatim>\<open>hidden_state[:, 0]\<close>: the first position of every sequence; IndexError on an empty one.\<close>

definition select_first :: "tensor3 \<Rightarrow> tensor2 option" where
  "select_first hs = (if list_all (\<lambda>h. h \<noteq> []) hs then Some (map hd hs) else None)"

text \<open>\<^verbatim>\<open>torch.cat(ts, 1)\<close> on rank-2 tensors: the numbers of rows must agree.\<close>

fun cat1 :: "tensor2 list \<Rightarrow> tensor2 option" where
  "cat1 [] = None"
| "cat1 [t] = Some t"
| "cat1 (t # ts) =
     do { u \<leftarrow> cat1 ts; if length t = length u then Some (map2 (@) t u) else None }"

section \<open>RobertaClass\<close>

text \<open>
  The pretrained encoder \<^verbatim>\<open>AutoModel.from_pretrained('bert-base-uncased')\<close> is a library
  model and a parameter here: \<open>l1 M train r ids mask types\<close> is \<^verbatim>\<open>output_1[0]\<close>, the last
  hidden state of shape \<open>(B, L, 768)\<close>, computed in training mode or not, with \<open>r\<close> the
  randomness its own dropout layers consume. \<open>training\<close> is the module's mode flag, set
  by \<^verbatim>\<open>model.train()\<close> and \<^verbatim>\<open>model.eval()\<close>; \<open>dropout\<close> is the probability of
  \<^verbatim>\<open>self.dropout\<close>. \<^verbatim>\<open>self.pooling\<close> has no parameter and is the function \<open>pooling\<close>.
\<close>

record 'r model =
  l1 :: "bool \<Rightarrow> 'r \<Rightarrow> int list list \<Rightarrow> int list list \<Rightarrow> int list list \<Rightarrow> tensor3 option"
  pre_classifier :: linear
  dropout :: real
  h1 :: linear
  h2 :: linear
  h3 :: linear
  h4 :: linear
  hidden0 :: linear
  hidden1 :: linear
  hidden2 :: linear
  hidden3 :: linear
  hidden4 :: linear
  classifier :: linear
  training :: bool

text \<open>
  \<^verbatim>\<open>RobertaClass.__init__\<close>. The values of the weights (random at construction, then
  changed by the optimizer) are the arguments \<open>w\<close> and \<open>b\<close>, by layer name; the sizes are
  those of the source. A new module is in training mode.
\<close>

definition RobertaClass_init ::
  "(bool \<Rightarrow> 'r \<Rightarrow> int list list \<Rightarrow> int list list \<Rightarrow> int list list \<Rightarrow> tensor3 option) \<Rightarrow>
   (string \<Rightarrow> nat \<Rightarrow> nat \<Rightarrow> real) \<Rightarrow> (string \<Rightarrow> nat \<Rightarrow> real) \<Rightarrow> 'r model" where
  "RobertaClass_init enc w b =
     \<lparr>l1 = enc,
      pre_classifier = Linear 768 768 (w ''pre_classifier'') (b ''pre_classifier''),
      dropout = 1 / 10,
      h1 = Linear 768 768 (w ''h1'') (b ''h1''),
      h2 = Linear 768 768 (w ''h2'') (b ''h2''),
      h3 = Linear 768 768 (w ''h3'') (b ''h3''),
      h4 = Linear 768 768 (w ''h4'') (b ''h4''),
      hidden0 = Linear 2304 256 (w ''hidden0'') (b ''hidden0''),
      hidden1 = Linear 2048 768 (w ''hidden1'') (b ''hidden1''),
      hidden2 = Linear 3072 512 (w ''hidden2'') (b ''hidden2''),
      hidden3 = Linear 3072 3072 (w ''hidden3'') (b ''hidden3''),
      hidden4 = Linear 1024 768 (w ''hidden4'') (b ''hidden4''),
      classifier = Linear 512 4 (w ''classifier'') (b ''classifier''),
      training = True\<rparr>"

text \<open>
  The arguments of \<^verbatim>\<open>forward\<close>, by their names. \<^verbatim>\<open>forward\<close> never reads \<^verbatim>\<open>pos_emb\<close>, so
  that argument may be a value of any type \<open>'p\<close>.
\<close>

record 'p inputs =
  input_ids :: "int list list"
  attention_mask :: "int list list"
  token_type_ids :: "int list list"
  visual_feature :: tensor2
  char_density :: tensor2
  char_number :: tensor2
  parsing1 :: tensor2
  parsing2 :: tensor2
  gcn_bert_base :: tensor2
  pos_emb :: 'p
  visual :: tensor2

text \<open>
  The randomness of one call: what the encoder consumes, and the draw of each of the eight
  calls of \<^verbatim>\<open>self.dropout\<close>, numbered in the order of the source.
\<close>

record 'r randomness =
  enc_rnd :: 'r
  keep :: "nat \<Rightarrow> nat \<Rightarrow> nat \<Rightarrow> bool"

text \<open>
  \<^verbatim>\<open>RobertaClass.forward\<close>, in three parts. \<open>forward_branches\<close> is the source up to the
  rebinding \<^verbatim>\<open>visual = other\<close>: it returns the values of \<^verbatim>\<open>pooler\<close>, \<^verbatim>\<open>visual\<close>,
  \<^verbatim>\<open>parsing\<close> and \<^verbatim>\<open>density\<close> at that point.
\<close>

definition forward_branches ::
  "'r model \<Rightarrow> 'r randomness \<Rightarrow> 'p inputs \<Rightarrow> (tensor2 \<times> tensor2 \<times> tensor2 \<times> tensor2) option" where
  "forward_branches M rnd a = do {
     hidden_state \<leftarrow> l1 M (training M) (enc_rnd rnd)
                       (input_ids a) (attention_mask a) (token_type_ids a);
     pooler \<leftarrow> select_first hidden_state;
     pooler \<leftarrow> apply_linear (pre_classifier M) pooler;
     let pooler = Tanh pooler;
     let pooler = Dropout (dropout M) (training M) (keep rnd 0) pooler;

     other \<leftarrow> cat_unsqueeze pooler (gcn_bert_base a);
     other \<leftarrow> pooling other;
     other \<leftarrow> squeeze1 other;
     other \<leftarrow> apply_linear (h1 M) other;
     let other = Tanh other;
     let other = Dropout (dropout M) (training M) (keep rnd 1) other;
     let pooler = other;

     parsing \<leftarrow> cat_unsqueeze (parsing1 a) (parsing2 a);
     parsing \<leftarrow> pooling parsing;
     parsing \<leftarrow> squeeze1 parsing;
     parsing \<leftarrow> apply_linear (h2 M) parsing;
     let parsing = Tanh parsing;
     let parsing = Dropout (dropout M) (training M) (keep rnd 2) parsing;

     density \<leftarrow> cat_unsqueeze (char_density a) (char_number a);
     density \<leftarrow> pooling density;
     density \<leftarrow> squeeze1 density;
     density \<leftarrow> apply_linear (h3 M) density;
     let density = Tanh density;
     let density = Dropout (dropout M) (training M) (keep rnd 3) density;

     visual \<leftarrow> apply_linear (hidden1 M) (visual a);
     let visual = Tanh visual;
     let visual = Dropout (dropout M) (training M) (keep rnd 4) visual;

     other \<leftarrow> cat_unsqueeze visual (visual_feature a);
     other \<leftarrow> pooling other;
     other \<leftarrow> squeeze1 other;
     other \<leftarrow> apply_linear (h4 M) other;
     let other = Tanh other;
     let other = Dropout (dropout M) (training M) (keep rnd 5) other;
     let visual = other;
     Some (pooler, visual, parsing, density)
   }"

text \<open>
  \<open>forward_concat\<close> adds the line
  \<^verbatim>\<open>pooler = torch.cat((pooler,visual,parsing,char_density),1)\<close>: the fourth operand is
  the argument \<^verbatim>\<open>char_density\<close>, not the variable \<^verbatim>\<open>density\<close>.
\<close>

definition forward_concat :: "'r model \<Rightarrow> 'r randomness \<Rightarrow> 'p inputs \<Rightarrow> tensor2 option" where
  "forward_concat M rnd a = do {
     (pooler, visual, parsing, density) \<leftarrow> forward_branches M rnd a;
     cat1 [pooler, visual, parsing, char_density a]
   }"

definition forward :: "'r model \<Rightarrow> 'r randomness \<Rightarrow> 'p inputs \<Rightarrow> tensor2 option" where
  "forward M rnd a = do {
     pooler \<leftarrow> forward_concat M rnd a;
     pooler \<leftarrow> apply_linear (hidden3 M) pooler;
     let pooler = Tanh pooler;
     let pooler = Dropout (dropout M) (training M) (keep rnd 6) pooler;

     pooler \<leftarrow> apply_linear (hidden2 M) pooler;
     let pooler = Tanh pooler;
     let pooler = Dropout (dropout M) (training M) (keep rnd 7) pooler;

     output \<leftarrow> apply_linear (classifier M) pooler;
     Some output
   }"

subsection \<open>The forward pass as a call on the module\<close>

text \<open>
  What a call of the module can read and write: the module object and the global random
  generator. \<open>keep (generator s) 0\<close> is the next dropout draw that the generator will
  give. A call returns its result, or \<open>None\<close> when it raises, and the state it leaves.
\<close>

record 'r world =
  the_model :: "'r model"
  generator :: "'r randomness"

type_synonym ('a, 'r) call = "'r world \<Rightarrow> 'a option \<times> 'r world"

definition bindS :: "('a, 'r) call \<Rightarrow> ('a \<Rightarrow> ('b, 'r) call) \<Rightarrow> ('b, 'r) call" where
  "bindS m f s = (case m s of (None, s') \<Rightarrow> (None, s') | (Some x, s') \<Rightarrow> f x s')"

text \<open>
  The operations of the library, as calls. A function of torch on the local tensors
  (\<^verbatim>\<open>torch.cat\<close>, \<^verbatim>\<open>unsqueeze\<close>, \<^verbatim>\<open>squeeze\<close>, indexing, \<^verbatim>\<open>Tanh\<close>) and the parameterless
  \<^verbatim>\<open>self.pooling\<close> touch neither the module nor the generator. A linear layer
  \<^verbatim>\<open>self.layer(x)\<close> and the encoder \<^verbatim>\<open>self.l1(...)\<close> read the module. \<^verbatim>\<open>self.dropout(x)\<close>
  reads the probability and the mode; in training mode it takes the next draw from the
  generator, in evaluation mode it draws nothing. What the encoder draws during the one
  call is the component \<open>enc_rnd\<close> of the generator, as in \<open>forward\<close>.
\<close>

definition on_tensors :: "'a option \<Rightarrow> ('a, 'r) call" where
  "on_tensors m s = (m, s)"

definition self_l1 :: "int list list \<Rightarrow> int list list \<Rightarrow> int list list \<Rightarrow> (tensor3, 'r) call" where
  "self_l1 ids mask_arg type_ids s =
     (l1 (the_model s) (training (the_model s)) (enc_rnd (generator s)) ids mask_arg type_ids,
      s)"

definition self_linear :: "('r model \<Rightarrow> linear) \<Rightarrow> tensor2 \<Rightarrow> (tensor2, 'r) call" where
  "self_linear layer x s = (apply_linear (layer (the_model s)) x, s)"

definition self_dropout :: "tensor2 \<Rightarrow> (tensor2, 'r) call" where
  "self_dropout x s =
     (Some (Dropout (dropout (the_model s)) (training (the_model s)) (keep (generator s) 0) x),
      if training (the_model s)
      then s\<lparr>generator := (generator s)\<lparr>keep := (\<lambda>k. keep (generator s) (Suc k))\<rparr>\<rparr>
      else s)"

text \<open>
  \<^verbatim>\<open>RobertaClass.forward\<close> once more, statement by statement, as a call: \<^verbatim>\<open>model(...)\<close>
  in the loops below is \<open>forward_st\<close>. Lemma \<open>forward_st_result\<close> shows that its result is
  that of \<open>forward\<close> on the module and the generator it starts from.
\<close>

definition forward_st :: "'p inputs \<Rightarrow> (tensor2, 'r) call" where
  "forward_st a =
     bindS (self_l1 (input_ids a) (attention_mask a) (token_type_ids a)) (\<lambda>hidden_state.
     bindS (on_tensors (select_first hidden_state)) (\<lambda>pooler.
     bindS (self_linear pre_classifier pooler) (\<lambda>pooler.
     bindS (self_dropout (Tanh pooler)) (\<lambda>pooler.

     bindS (on_tensors (cat_unsqueeze pooler (gcn_bert_base a))) (\<lambda>other.
     bindS (on_tensors (pooling other)) (\<lambda>other.
     bindS (on_tensors (squeeze1 other)) (\<lambda>other.
     bindS (self_linear h1 other) (\<lambda>other.
     bindS (self_dropout (Tanh other)) (\<lambda>other.
     let pooler = other in

     bindS (on_tensors (cat_unsqueeze (parsing1 a) (parsing2 a))) (\<lambda>parsing.
     bindS (on_tensors (pooling parsing)) (\<lambda>parsing.
     bindS (on_tensors (squeeze1 parsing)) (\<lambda>parsing.
     bindS (self_linear h2 parsing) (\<lambda>parsing.
     bindS (self_dropout (Tanh parsing)) (\<lambda>parsing.

     bindS (on_tensors (cat_unsqueeze (char_density a) (char_number a))) (\<lambda>density.
     bindS (on_tensors (pooling density)) (\<lambda>density.
     bindS (on_tensors (squeeze1 density)) (\<lambda>density.
     bindS (self_linear h3 density) (\<lambda>density.
     bindS (self_dropout (Tanh density)) (\<lambda>density.

     bindS (self_linear hidden1 (visual a)) (\<lambda>visual.
     bindS (self_dropout (Tanh visual)) (\<lambda>visual.

     bindS (on_tensors (cat_unsqueeze visual (visual_feature a))) (\<lambda>other.
     bindS (on_tensors (pooling other)) (\<lambda>other.
     bindS (on_tensors (squeeze1 other)) (\<lambda>other.
     bindS (self_linear h4 other) (\<lambda>other.
     bindS (self_dropout (Tanh other)) (\<lambda>other.
     let visual = other in

     bindS (on_tensors (cat1 [pooler, visual, parsing, char_density a])) (\<lambda>pooler.
     bindS (self_linear hidden3 pooler) (\<lambda>pooler.
     bindS (self_dropout (Tanh pooler)) (\<lambda>pooler.

     bindS (self_linear hidden2 pooler) (\<lambda>pooler.
     bindS (self_dropout (Tanh pooler)) (\<lambda>pooler.

     bindS (self_linear classifier pooler) (\<lambda>output.
     on_tensors (Some output)))))))))))))))))))))))))))))))))"

text \<open>
  The value of a stage of \<^verbatim>\<open>forward\<close> when none of its operations raises: a linear layer,
  \<^verbatim>\<open>Tanh\<close> and the \<open>k\<close>-th dropout on \<open>x\<close>, or on the entry-wise maximum of \<open>x\<close> and \<open>y\<close>.
  The lemmas name the intermediate tensors with them.
\<close>

definition project :: "'r model \<Rightarrow> 'r randomness \<Rightarrow> nat \<Rightarrow> linear \<Rightarrow> tensor2 \<Rightarrow> tensor2" where
  "project M rnd k L x =
     Dropout (dropout M) (training M) (keep rnd k) (Tanh (map (linear_row L) x))"

definition fuse_project ::
  "'r model \<Rightarrow> 'r randomness \<Rightarrow> nat \<Rightarrow> linear \<Rightarrow> tensor2 \<Rightarrow> tensor2 \<Rightarrow> tensor2" where
  "fuse_project M rnd k L x y = project M rnd k L (map2 (map2 max) x y)"

text \<open>
  The pairs of rank-2 tensors that can be stacked and pooled: the same shape \<open>(B, d)\<close>
  with \<open>B > 0\<close> and \<open>d > 0\<close>.
\<close>

definition poolable :: "tensor2 \<Rightarrow> tensor2 \<Rightarrow> bool" where
  "poolable x y =
     (x \<noteq> [] \<and> list_all2 (\<lambda>r s. length r = length s \<and> r \<noteq> []) x y)"

text \<open>
  The concatenation as the specification words it: the fused branches only, with the
  variable \<^verbatim>\<open>density\<close> as the fourth operand. It is compared with \<open>forward_concat\<close>.
\<close>

definition fused_concat :: "'r model \<Rightarrow> 'r randomness \<Rightarrow> 'p inputs \<Rightarrow> tensor2 option" where
  "fused_concat M rnd a = do {
     (pooler, visual, parsing, density) \<leftarrow> forward_branches M rnd a;
     cat1 [pooler, visual, parsing, density]
   }"

text \<open>
  Concrete values for the instances below: an encoder that returns a zero hidden state of
  one position for every sequence, the module with every weight and bias zero, in
  evaluation mode, a draw that keeps every entry, and a batch of two examples whose
  \<^verbatim>\<open>visual\<close> vectors have width \<open>vw\<close> and whose other vectors have width 768.
\<close>

definition zero_encoder ::
  "bool \<Rightarrow> unit \<Rightarrow> int list list \<Rightarrow> int list list \<Rightarrow> int list list \<Rightarrow> tensor3 option" where
  "zero_encoder train r ids m t = Some (map (\<lambda>_. [replicate 768 0]) ids)"

definition zero_model :: "unit model" where
  "zero_model = (RobertaClass_init zero_encoder (\<lambda>_ _ _. 0) (\<lambda>_ _. 0))\<lparr>training := False\<rparr>"

definition keep_all :: "unit randomness" where
  "keep_all = \<lparr>enc_rnd = (), keep = (\<lambda>_ _ _. True)\<rparr>"

definition drop_all :: "unit randomness" where
  "drop_all = \<lparr>enc_rnd = (), keep = (\<lambda>_ _ _. False)\<rparr>"

definition two_examples :: "nat \<Rightarrow> 'p \<Rightarrow> 'p inputs" where
  "two_examples vw pe =
     \<lparr>input_ids = [[101, 102], [101, 102]], attention_mask = [[1, 1], [1, 1]],
      token_type_ids = [[0, 0], [0, 0]],
      visual_feature = [replicate 768 1, replicate 768 1],
      char_density = [replicate 768 1, replicate 768 1],
      char_number = [replicate 768 1, replicate 768 1],
      parsing1 = [replicate 768 1, replicate 768 1],
      parsing2 = [replicate 768 1, replicate 768 1],
      gcn_bert_base = [replicate 768 1, replicate 768 1],
      pos_emb = pe,
      visual = [replicate vw 1, replicate vw 1]\<rparr>"

section \<open>Batches and the evaluation loop\<close>

datatype error =
  KeyError string | LabelError nat | AttributeError string | TypeError | RuntimeError
  | IndexError | ZeroDivisionError

definition bindE :: "error + 'a \<Rightarrow> ('a \<Rightarrow> error + 'b) \<Rightarrow> error + 'b" where
  "bindE m f = (case m of Inl e \<Rightarrow> Inl e | Inr x \<Rightarrow> f x)"

definition raising :: "error \<Rightarrow> 'a option \<Rightarrow> error + 'a" where
  "raising e m = (case m of None \<Rightarrow> Inl e | Some x \<Rightarrow> Inr x)"

text \<open>
  A batch is the dict that the DataLoader yields: field names to stacked tensors, integer
  (\<^verbatim>\<open>torch.long\<close>, 64 bits) or real (\<^verbatim>\<open>torch.float\<close>), of rank 1 or 2.
  \<^verbatim>\<open>.to(device, dtype=...)\<close> converts the entries and never fails: to float exactly (in
  this model), to long by truncation toward zero. A value that does not fit in 64 bits
  becomes \<open>- 2\<^sup>6\<^sup>3\<close>, which is what the conversion of the processor gives.
\<close>

datatype tensor =
  Long1 "int list" | Long2 "int list list" | Float1 "real list" | Float2 "real list list"

type_synonym batch = "string \<rightharpoonup> tensor"

definition trunc :: "real \<Rightarrow> int" where
  "trunc x = (if 0 \<le> x then \<lfloor>x\<rfloor> else \<lceil>x\<rceil>)"

definition to_int64 :: "real \<Rightarrow> int" where
  "to_int64 x =
     (if - (2 ^ 63) \<le> trunc x \<and> trunc x < 2 ^ 63 then trunc x else - (2 ^ 63))"

fun to_long :: "tensor \<Rightarrow> tensor" where
  "to_long (Float1 xs) = Long1 (map to_int64 xs)"
| "to_long (Float2 xs) = Long2 (map (map to_int64) xs)"
| "to_long t = t"

fun to_float :: "tensor \<Rightarrow> tensor" where
  "to_float (Long1 xs) = Float1 (map of_int xs)"
| "to_float (Long2 xs) = Float2 (map (map of_int) xs)"
| "to_float t = t"

text \<open>\<^verbatim>\<open>data[k]\<close> for each key of a list in turn: the first missing key raises KeyError.\<close>

fun getitems :: "batch \<Rightarrow> string list \<Rightarrow> error + tensor list" where
  "getitems data [] = Inr []"
| "getitems data (k # ks) =
     (case data k of
        None \<Rightarrow> Inl (KeyError k)
      | Some t \<Rightarrow> bindE (getitems data ks) (\<lambda>ts. Inr (t # ts)))"

text \<open>
  The call \<^verbatim>\<open>model(ids, mask, token_type_ids, visual_feature, char_density, char_number,
  parsing1, parsing2, gcn_bert_base, pos_emb, visual)\<close> binds its eleven positional
  arguments to the parameters of \<^verbatim>\<open>forward\<close>. The encoder wants rank-2 token tensors, and
  every real-valued argument that \<^verbatim>\<open>forward\<close> uses is stacked or projected as a rank-2
  tensor: with another rank the call raises. \<^verbatim>\<open>pos_emb\<close> is bound as it comes.
\<close>

definition as_long2 :: "tensor \<Rightarrow> error + int list list" where
  "as_long2 t = (case t of Long2 m \<Rightarrow> Inr m | _ \<Rightarrow> Inl RuntimeError)"

definition as_float2 :: "tensor \<Rightarrow> error + tensor2" where
  "as_float2 t = (case t of Float2 m \<Rightarrow> Inr m | _ \<Rightarrow> Inl RuntimeError)"

definition positional ::
  "tensor \<Rightarrow> tensor \<Rightarrow> tensor \<Rightarrow> tensor \<Rightarrow> tensor \<Rightarrow> tensor \<Rightarrow> tensor \<Rightarrow> tensor \<Rightarrow> tensor \<Rightarrow>
   tensor \<Rightarrow> tensor \<Rightarrow> error + tensor inputs" where
  "positional ids mask_arg type_ids visual_feature_arg char_density_arg char_number_arg
     parsing1_arg parsing2_arg gcn_bert_base_arg pos_emb_arg visual_arg =
     bindE (as_long2 ids) (\<lambda>i.
     bindE (as_long2 mask_arg) (\<lambda>m.
     bindE (as_long2 type_ids) (\<lambda>t.
     bindE (as_float2 visual_feature_arg) (\<lambda>vf.
     bindE (as_float2 char_density_arg) (\<lambda>cd.
     bindE (as_float2 char_number_arg) (\<lambda>cn.
     bindE (as_float2 parsing1_arg) (\<lambda>p1.
     bindE (as_float2 parsing2_arg) (\<lambda>p2.
     bindE (as_float2 gcn_bert_base_arg) (\<lambda>g.
     bindE (as_float2 visual_arg) (\<lambda>v.
     Inr \<lparr>input_ids = i, attention_mask = m, token_type_ids = t, visual_feature = vf,
          char_density = cd, char_number = cn, parsing1 = p1, parsing2 = p2,
          gcn_bert_base = g, pos_emb = pos_emb_arg, visual = v\<rparr>))))))))))"

text \<open>
  The first lines of the loop bodies of \<^verbatim>\<open>train\<close>, \<^verbatim>\<open>valid\<close> and
  \<^verbatim>\<open>test_label_generator\<close>: the fields are read in the order of the source, each converted
  with \<^verbatim>\<open>.to(device, dtype=...)\<close>, and the model is called with them. The list of keys and
  the list of variables are side by side; the result is \<^verbatim>\<open>targets\<close> with the arguments that
  \<^verbatim>\<open>forward\<close> receives. \<^verbatim>\<open>valid\<close> reads the key \<^verbatim>\<open>gcn_bert_large\<close> into the variable
  \<^verbatim>\<open>gcn_bert_base\<close>.
\<close>

definition train_inputs :: "batch \<Rightarrow> error + tensor \<times> tensor inputs" where
  "train_inputs data =
     bindE (getitems data
       [''ids'', ''mask'', ''token_type_ids'', ''targets'', ''visual_feature'',
        ''gcn_bert_base'', ''parsing1'', ''parsing2'', ''char_density'', ''char_number'',
        ''pos_emb'', ''visual''])
     (\<lambda>ts. case ts of
        [ids, mask_v, token_type_ids_v, targets, visual_feature_v,
         gcn_bert_base_v, parsing1_v, parsing2_v, char_density_v, char_number_v,
         pos_emb_v, visual_v] \<Rightarrow>
          bindE (positional (to_long ids) (to_long mask_v) (to_long token_type_ids_v)
                   (to_float visual_feature_v) (to_float char_density_v)
                   (to_float char_number_v) (to_float parsing1_v) (to_float parsing2_v)
                   (to_float gcn_bert_base_v) (to_float pos_emb_v) (to_float visual_v))
            (\<lambda>a. Inr (to_long targets, a))
      | _ \<Rightarrow> Inl RuntimeError)"

definition valid_inputs :: "batch \<Rightarrow> error + tensor \<times> tensor inputs" where
  "valid_inputs data =
     bindE (getitems data
       [''ids'', ''mask'', ''token_type_ids'', ''targets'', ''char_density'',
        ''char_number'', ''visual_feature'', ''gcn_bert_large'', ''parsing1'', ''parsing2'',
        ''pos_emb'', ''visual''])
     (\<lambda>ts. case ts of
        [ids, mask_v, token_type_ids_v, targets, char_density_v,
         char_number_v, visual_feature_v, gcn_bert_base_v, parsing1_v, parsing2_v,
         pos_emb_v, visual_v] \<Rightarrow>
          bindE (positional (to_long ids) (to_long mask_v) (to_long token_type_ids_v)
                   (to_float visual_feature_v) (to_float char_density_v)
                   (to_float char_number_v) (to_float parsing1_v) (to_float parsing2_v)
                   (to_float gcn_bert_base_v) (to_float pos_emb_v) (to_float visual_v))
            (\<lambda>a. Inr (to_long targets, a))
      | _ \<Rightarrow> Inl RuntimeError)"

definition test_inputs :: "batch \<Rightarrow> error + tensor inputs" where
  "test_inputs data =
     bindE (getitems data
       [''ids'', ''mask'', ''token_type_ids'', ''visual_feature'', ''gcn_bert_base'',
        ''parsing1'', ''parsing2'', ''char_density'', ''char_number'', ''pos_emb'',
        ''visual''])
     (\<lambda>ts. case ts of
        [ids, mask_v, token_type_ids_v, visual_feature_v, gcn_bert_base_v,
         parsing1_v, parsing2_v, char_density_v, char_number_v, pos_emb_v,
         visual_v] \<Rightarrow>
          positional (to_long ids) (to_long mask_v) (to_long token_type_ids_v)
            (to_float visual_feature_v) (to_float char_density_v)
            (to_float char_number_v) (to_float parsing1_v) (to_float parsing2_v)
            (to_float gcn_bert_base_v) (to_float pos_emb_v) (to_float visual_v)
      | _ \<Rightarrow> Inl RuntimeError)"


subsection \<open>Accuracy\<close>

text \<open>
  \<^verbatim>\<open>calcuate_accuracy\<close>: \<^verbatim>\<open>(preds==targets).sum().item()\<close> on rank-1 label tensors. The
  comparison broadcasts a tensor of one element against the other tensor, and raises on
  any other pair of different lengths.
\<close>

definition calcuate_accuracy :: "int list \<Rightarrow> int list \<Rightarrow> nat option" where
  "calcuate_accuracy preds targets =
     (if length preds = length targets
      then Some (length (filter (\<lambda>(p, t). p = t) (zip preds targets)))
      else if length preds = 1 then Some (length (filter (\<lambda>t. hd preds = t) targets))
      else if length targets = 1 then Some (length (filter (\<lambda>p. p = hd targets) preds))
      else None)"

text \<open>
  In the loops \<^verbatim>\<open>targets\<close> is the field of the batch converted to long, of rank 1 or 2,
  and \<^verbatim>\<open>preds\<close> has rank 1. Against targets of rank 2 the comparison broadcasts \<^verbatim>\<open>preds\<close>
  along every row of \<^verbatim>\<open>targets\<close>, and the sum counts the equal entries of all rows. A
  tensor of rank 2 is the list of its rows here: one with no row carries no width, and is
  taken to have a width that fits \<^verbatim>\<open>preds\<close>, so that there is nothing to count. The
  conversion to long leaves no float tensor (lemma \<open>to_long_rank\<close>), so the last case never
  arises in the loops.
\<close>

fun sum_counts :: "nat option list \<Rightarrow> nat option" where
  "sum_counts [] = Some 0"
| "sum_counts (c # cs) = do { n \<leftarrow> c; m \<leftarrow> sum_counts cs; Some (n + m) }"

definition accuracy_of_batch :: "int list \<Rightarrow> tensor \<Rightarrow> error + nat" where
  "accuracy_of_batch preds targets =
     (case targets of
        Long1 t \<Rightarrow> raising RuntimeError (calcuate_accuracy preds t)
      | Long2 rows \<Rightarrow> raising RuntimeError (sum_counts (map (calcuate_accuracy preds) rows))
      | _ \<Rightarrow> Inl TypeError)"

text \<open>\<^verbatim>\<open>t.size(0)\<close> is the first dimension of a tensor.\<close>

definition size0 :: "tensor \<Rightarrow> nat" where
  "size0 t =
     (case t of Long1 xs \<Rightarrow> length xs | Long2 xs \<Rightarrow> length xs | Float1 xs \<Rightarrow> length xs
      | Float2 xs \<Rightarrow> length xs)"

subsection \<open>The function valid\<close>

text \<open>
  \<^verbatim>\<open>outputs.squeeze()\<close> removes every dimension of size 1, so a batch of one example
  leaves a rank-1 tensor. \<^verbatim>\<open>torch.max(outputs.data, dim=1)\<close> gives, for each row of a
  rank-2 tensor, its maximum and the index of the first entry that reaches it; a tensor
  of lower rank has no dimension 1.
\<close>

datatype squeezed = Rank0 real | Rank1 "real list" | Rank2 "real list list"

definition squeeze :: "tensor2 \<Rightarrow> squeezed" where
  "squeeze t =
     (if length t = 1
      then (if length (hd t) = 1 then Rank0 (hd (hd t)) else Rank1 (hd t))
      else if t \<noteq> [] \<and> list_all (\<lambda>r. length r = 1) t then Rank1 (map hd t)
      else Rank2 t)"

definition maximum :: "real list \<Rightarrow> real" where
  "maximum r = fold max r (hd r)"

definition argmax :: "real list \<Rightarrow> int" where
  "argmax r = int (length (takeWhile (\<lambda>x. x \<noteq> maximum r) r))"

definition max_dim1 :: "squeezed \<Rightarrow> error + real list \<times> int list" where
  "max_dim1 t =
     (case t of
        Rank2 rows \<Rightarrow>
          if list_all (\<lambda>r. r \<noteq> []) rows then Inr (map maximum rows, map argmax rows)
          else Inl IndexError
      | _ \<Rightarrow> Inl IndexError)"

text \<open>The counters of \<^verbatim>\<open>valid\<close> that are read after their initialisation.\<close>

record totals =
  n_correct :: nat
  tr_loss :: real
  nb_tr_steps :: nat
  nb_tr_examples :: nat
  output_list :: "int list"

text \<open>
  One pass of the loop of \<^verbatim>\<open>valid\<close>, on the module \<open>M\<close> with the generator in state
  \<open>rnd\<close>: the fields of the batch are read, \<^verbatim>\<open>model(...)\<close> is the call \<open>forward_st\<close>, and the
  pass returns the new counters, or the exception, with the module that the call left.
  \<open>loss_function\<close> is the global \<^verbatim>\<open>torch.nn.CrossEntropyLoss()\<close>, a parameter here: it
  returns the loss or raises. \<^verbatim>\<open>torch.no_grad()\<close> changes no value.
\<close>

definition valid_step ::
  "'r model \<Rightarrow> 'r randomness \<Rightarrow> (squeezed \<Rightarrow> tensor \<Rightarrow> real option) \<Rightarrow> batch \<Rightarrow> totals \<Rightarrow>
   (error + totals) \<times> 'r model" where
  "valid_step M rnd loss_function data st =
     (case valid_inputs data of
        Inl e \<Rightarrow> (Inl e, M)
      | Inr (targets, a) \<Rightarrow>
          (case forward_st a \<lparr>the_model = M, generator = rnd\<rparr> of
             (None, s') \<Rightarrow> (Inl RuntimeError, the_model s')
           | (Some outputs, s') \<Rightarrow>
               (let outputs = squeeze outputs in
                bindE (raising RuntimeError (loss_function outputs targets)) (\<lambda>loss.
                bindE (max_dim1 outputs) (\<lambda>(big_val, big_idx).
                bindE (accuracy_of_batch big_idx targets) (\<lambda>c.
                Inr (st\<lparr>tr_loss := tr_loss st + loss,
                        output_list := output_list st @ big_idx,
                        n_correct := n_correct st + c,
                        nb_tr_steps := nb_tr_steps st + 1,
                        nb_tr_examples := nb_tr_examples st + size0 targets\<rparr>)))),
                the_model s')))"

fun valid_loop ::
  "'r model \<Rightarrow> (nat \<Rightarrow> 'r randomness) \<Rightarrow> (squeezed \<Rightarrow> tensor \<Rightarrow> real option) \<Rightarrow> nat \<Rightarrow>
   batch list \<Rightarrow> totals \<Rightarrow> (error + totals) \<times> 'r model" where
  "valid_loop M rnds loss_function k [] st = (Inr st, M)"
| "valid_loop M rnds loss_function k (data # rest) st =
     (case valid_step M (rnds k) loss_function data st of
        (Inl e, M') \<Rightarrow> (Inl e, M')
      | (Inr st', M') \<Rightarrow> valid_loop M' rnds loss_function (Suc k) rest st')"

text \<open>
  \<^verbatim>\<open>valid(model, testing_loader)\<close>: \<^verbatim>\<open>model.eval()\<close>, the loop, then the two averages (a
  division by zero on an empty loader). It returns \<^verbatim>\<open>(epoch_accu, output_list)\<close> or the
  exception, and the module as the call leaves it. \<open>rnds k\<close> is the state of the generator
  when the \<open>k\<close>-th pass calls the model; between two passes the loader may draw as well.
\<close>

definition valid ::
  "'r model \<Rightarrow> (nat \<Rightarrow> 'r randomness) \<Rightarrow> (squeezed \<Rightarrow> tensor \<Rightarrow> real option) \<Rightarrow> batch list \<Rightarrow>
   (error + real \<times> int list) \<times> 'r model" where
  "valid M rnds loss_function testing_loader =
     (let M = M\<lparr>training := False\<rparr>;
          st0 = \<lparr>n_correct = 0, tr_loss = 0, nb_tr_steps = 0, nb_tr_examples = 0,
                 output_list = []\<rparr>
      in case valid_loop M rnds loss_function 0 testing_loader st0 of
           (Inl e, M') \<Rightarrow> (Inl e, M')
         | (Inr st, M') \<Rightarrow>
             (if nb_tr_steps st = 0 then Inl ZeroDivisionError
              else if nb_tr_examples st = 0 then Inl ZeroDivisionError
              else Inr (real (n_correct st * 100) / real (nb_tr_examples st),
                        output_list st),
              M'))"

subsection \<open>The function test_label_generator\<close>

text \<open>
  One pass of the loop of \<^verbatim>\<open>test_label_generator\<close>: the fields, the call of the model,
  \<^verbatim>\<open>.squeeze()\<close>, \<^verbatim>\<open>torch.max\<close>, and the predicted labels appended to \<^verbatim>\<open>output_list\<close>. The
  counter \<^verbatim>\<open>nb_tr_steps\<close> is never read.
\<close>

definition test_step ::
  "'r model \<Rightarrow> 'r randomness \<Rightarrow> batch \<Rightarrow> int list \<Rightarrow> (error + int list) \<times> 'r model" where
  "test_step M rnd data output_list_v =
     (case test_inputs data of
        Inl e \<Rightarrow> (Inl e, M)
      | Inr a \<Rightarrow>
          (case forward_st a \<lparr>the_model = M, generator = rnd\<rparr> of
             (None, s') \<Rightarrow> (Inl RuntimeError, the_model s')
           | (Some outputs, s') \<Rightarrow>
               (let outputs = squeeze outputs in
                bindE (max_dim1 outputs) (\<lambda>(big_val, big_idx).
                Inr (output_list_v @ big_idx)),
                the_model s')))"

fun test_loop ::
  "'r model \<Rightarrow> (nat \<Rightarrow> 'r randomness) \<Rightarrow> nat \<Rightarrow> batch list \<Rightarrow> int list \<Rightarrow>
   (error + int list) \<times> 'r model" where
  "test_loop M rnds k [] output_list_v = (Inr output_list_v, M)"
| "test_loop M rnds k (data # rest) output_list_v =
     (case test_step M (rnds k) data output_list_v of
        (Inl e, M') \<Rightarrow> (Inl e, M')
      | (Inr output_list', M') \<Rightarrow> test_loop M' rnds (Suc k) rest output_list')"

definition test_label_generator ::
  "'r model \<Rightarrow> (nat \<Rightarrow> 'r randomness) \<Rightarrow> batch list \<Rightarrow> (error + int list) \<times> 'r model" where
  "test_label_generator M rnds testing_loader =
     test_loop (M\<lparr>training := False\<rparr>) rnds 0 testing_loader []"

subsection \<open>The function train\<close>

text \<open>
  \<^verbatim>\<open>train(epoch)\<close> works on the global module and optimizer. \<open>backward_step\<close> stands for
  \<^verbatim>\<open>optimizer.zero_grad(); loss.backward(); optimizer.step()\<close> of the library: from the
  optimizer state, the module after the call, the generator state \<open>rnd\<close> that the call
  started from, and what the loss of this pass was computed from, it gives the new
  optimizer state and the module with its updated weights. The model output is not
  squeezed here. The statistics under \<^verbatim>\<open>if _%5000==0\<close> are not used, but their division
  can raise.
\<close>

definition train_step ::
  "('o \<Rightarrow> 'r model \<Rightarrow> 'r randomness \<Rightarrow> tensor inputs \<Rightarrow> tensor \<Rightarrow> 'o \<times> 'r model) \<Rightarrow>
   (squeezed \<Rightarrow> tensor \<Rightarrow> real option) \<Rightarrow> nat \<Rightarrow> 'r randomness \<Rightarrow> batch \<Rightarrow>
   totals \<Rightarrow> 'r model \<Rightarrow> 'o \<Rightarrow> (error + totals) \<times> 'r model \<times> 'o" where
  "train_step backward_step loss_function k rnd data st M opt =
     (case train_inputs data of
        Inl e \<Rightarrow> (Inl e, M, opt)
      | Inr (targets, a) \<Rightarrow>
          (case forward_st a \<lparr>the_model = M, generator = rnd\<rparr> of
             (None, s') \<Rightarrow> (Inl RuntimeError, the_model s', opt)
           | (Some outputs, s') \<Rightarrow>
               (case
                  bindE (raising RuntimeError (loss_function (Rank2 outputs) targets)) (\<lambda>loss.
                  bindE (max_dim1 (Rank2 outputs)) (\<lambda>(big_val, big_idx).
                  bindE (accuracy_of_batch big_idx targets) (\<lambda>c.
                  let st' = st\<lparr>tr_loss := tr_loss st + loss,
                                 n_correct := n_correct st + c,
                                 nb_tr_steps := nb_tr_steps st + 1,
                                 nb_tr_examples := nb_tr_examples st + size0 targets\<rparr>
                  in if k mod 5000 = 0 \<and> nb_tr_examples st' = 0 then Inl ZeroDivisionError
                     else Inr st')))
                of
                  Inl e \<Rightarrow> (Inl e, the_model s', opt)
                | Inr st' \<Rightarrow>
                    (case backward_step opt (the_model s') rnd a targets of
                       (opt', M'') \<Rightarrow> (Inr st', M'', opt')))))"

fun train_loop ::
  "('o \<Rightarrow> 'r model \<Rightarrow> 'r randomness \<Rightarrow> tensor inputs \<Rightarrow> tensor \<Rightarrow> 'o \<times> 'r model) \<Rightarrow>
   (squeezed \<Rightarrow> tensor \<Rightarrow> real option) \<Rightarrow> (nat \<Rightarrow> 'r randomness) \<Rightarrow> nat \<Rightarrow> batch list \<Rightarrow>
   totals \<Rightarrow> 'r model \<Rightarrow> 'o \<Rightarrow> (error + totals) \<times> 'r model \<times> 'o" where
  "train_loop backward_step loss_function rnds k [] st M opt = (Inr st, M, opt)"
| "train_loop backward_step loss_function rnds k (data # rest) st M opt =
     (case train_step backward_step loss_function k (rnds k) data st M opt of
        (Inl e, M', opt') \<Rightarrow> (Inl e, M', opt')
      | (Inr st', M', opt') \<Rightarrow>
          train_loop backward_step loss_function rnds (Suc k) rest st' M' opt')"

text \<open>
  \<^verbatim>\<open>train\<close>: \<^verbatim>\<open>model.train()\<close>, the loop over the batches that the shuffling loader
  yields, then the averages that are printed (a division by zero on an empty loader).
  It returns nothing; the result is the module and the optimizer as it leaves them.
\<close>

definition train ::
  "('o \<Rightarrow> 'r model \<Rightarrow> 'r randomness \<Rightarrow> tensor inputs \<Rightarrow> tensor \<Rightarrow> 'o \<times> 'r model) \<Rightarrow>
   (squeezed \<Rightarrow> tensor \<Rightarrow> real option) \<Rightarrow> (nat \<Rightarrow> 'r randomness) \<Rightarrow> batch list \<Rightarrow>
   'r model \<Rightarrow> 'o \<Rightarrow> (error + unit) \<times> 'r model \<times> 'o" where
  "train backward_step loss_function rnds training_loader M opt =
     (let M = M\<lparr>training := True\<rparr>;
          st0 = \<lparr>n_correct = 0, tr_loss = 0, nb_tr_steps = 0, nb_tr_examples = 0,
                 output_list = []\<rparr>
      in case train_loop backward_step loss_function rnds 0 training_loader st0 M opt of
           (Inl e, M', opt') \<Rightarrow> (Inl e, M', opt')
         | (Inr st, M', opt') \<Rightarrow>
             (if nb_tr_examples st = 0 then Inl ZeroDivisionError
              else if nb_tr_steps st = 0 then Inl ZeroDivisionError
              else Inr (),
              M', opt'))"

text \<open>
  The trainable parameters of the module, as \<^verbatim>\<open>model.parameters()\<close> lists them: the
  encoder and every linear layer.
\<close>

definition parameters ::
  "'r model \<Rightarrow>
   (bool \<Rightarrow> 'r \<Rightarrow> int list list \<Rightarrow> int list list \<Rightarrow> int list list \<Rightarrow> tensor3 option) \<times>
   linear list" where
  "parameters M =
     (l1 M, [pre_classifier M, h1 M, h2 M, h3 M, h4 M, hidden0 M, hidden1 M, hidden2 M,
             hidden3 M, hidden4 M, classifier M])"

section \<open>Tables and the dataset\<close>

text \<open>
  A pandas table: the index labels of its rows, in order, and its columns by name, each
  with one cell for every row. The labels of a table are distinct, as those of a table with
  a default index are. A missing value is \<open>NaN\<close>.
\<close>

datatype cell = Str string | Num real | Vec "real list" | Ints "int list" | NaN

record frame =
  index :: "nat list"
  columns :: "string \<rightharpoonup> cell list"

type_synonym series = "(nat \<times> cell) list"

text \<open>\<^verbatim>\<open>df[c]\<close> and \<^verbatim>\<open>df.c\<close>: the column with its labels.\<close>

definition getcol :: "frame \<Rightarrow> string \<Rightarrow> error + series" where
  "getcol df c =
     (case columns df c of None \<Rightarrow> Inl (KeyError c) | Some vs \<Rightarrow> Inr (zip (index df) vs))"

definition getattr :: "frame \<Rightarrow> string \<Rightarrow> error + series" where
  "getattr df c =
     (case columns df c of
        None \<Rightarrow> Inl (AttributeError c)
      | Some vs \<Rightarrow> Inr (zip (index df) vs))"

text \<open>
  \<^verbatim>\<open>df[c] = s\<close> aligns the series on the labels of \<open>df\<close>: the row labelled \<open>i\<close> receives the
  value that \<open>s\<close> has at label \<open>i\<close>, or a missing value.
\<close>

definition setcol :: "frame \<Rightarrow> string \<Rightarrow> series \<Rightarrow> frame" where
  "setcol df c s =
     df\<lparr>columns := (columns df)
          (c \<mapsto> map (\<lambda>i. case map_of s i of None \<Rightarrow> NaN | Some v \<Rightarrow> v) (index df))\<rparr>"

text \<open>\<^verbatim>\<open>df[[c1, ..., cn]]\<close>: the table of these columns; KeyError when one is missing.\<close>

fun getcols :: "frame \<Rightarrow> string list \<Rightarrow> error + (string \<times> cell list) list" where
  "getcols df [] = Inr []"
| "getcols df (c # cs) =
     (case columns df c of
        None \<Rightarrow> Inl (KeyError c)
      | Some vs \<Rightarrow> bindE (getcols df cs) (\<lambda>ps. Inr ((c, vs) # ps)))"

definition select :: "frame \<Rightarrow> string list \<Rightarrow> error + frame" where
  "select df cs = bindE (getcols df cs) (\<lambda>ps. Inr \<lparr>index = index df, columns = map_of ps\<rparr>)"

text \<open>
  The cell of the notebook that adds the column \<^verbatim>\<open>visual_embedding\<close>:
  \<^verbatim>\<open>df_train['visual_embedding'] = test_visual['visual_embedding']\<close>, then
  \<^verbatim>\<open>df_test['visual_embedding'] = train_visual['visual_embedding']\<close>.
\<close>

definition add_visual_embedding ::
  "frame \<Rightarrow> frame \<Rightarrow> frame \<Rightarrow> frame \<Rightarrow> error + frame \<times> frame" where
  "add_visual_embedding df_train df_test train_visual test_visual =
     bindE (getcol test_visual ''visual_embedding'') (\<lambda>s.
       let df_train = setcol df_train ''visual_embedding'' s in
       bindE (getcol train_visual ''visual_embedding'') (\<lambda>s'.
         let df_test = setcol df_test ''visual_embedding'' s' in
         Inr (df_train, df_test)))"

text \<open>
  \<^verbatim>\<open>SentimentData.__init__\<close> keeps one column under each attribute (attribute name, then
  column name); \<^verbatim>\<open>tokenizer\<close> and \<^verbatim>\<open>max_len\<close> are part of \<open>tokenize\<close> below.
\<close>

fun getattrs :: "frame \<Rightarrow> (string \<times> string) list \<Rightarrow> error + (string \<times> series) list" where
  "getattrs df [] = Inr []"
| "getattrs df ((a, c) # rest) =
     bindE (getattr df c) (\<lambda>s. bindE (getattrs df rest) (\<lambda>ps. Inr ((a, s) # ps)))"

definition SentimentData_init :: "frame \<Rightarrow> error + (string \<rightharpoonup> series)" where
  "SentimentData_init dataframe =
     bindE (getattrs dataframe
       [(''text'', ''text''), (''targets'', ''label''),
        (''visual_feature'', ''near_visual_feature''), (''gcn_bert_base'', ''gcn_bert_base''),
        (''parsing1'', ''gcn_parsing1''), (''parsing2'', ''gcn_parsing2''),
        (''char_density'', ''gcn_near_char_density''),
        (''char_number'', ''gcn_near_char_number''), (''pos_emb'', ''gcn_pos_emb''),
        (''visual'', ''visual_embedding'')])
     (\<lambda>ps. Inr (map_of ps))"

text \<open>
  \<^verbatim>\<open>self.attr[index]\<close> reads the series at the label \<open>index\<close>.
  \<^verbatim>\<open>torch.tensor(x, dtype=torch.float)\<close> keeps a numeric cell and raises on text.
\<close>

definition at_label :: "(string \<rightharpoonup> series) \<Rightarrow> string \<Rightarrow> nat \<Rightarrow> error + cell" where
  "at_label self attr i =
     (case self attr of
        None \<Rightarrow> Inl (AttributeError attr)
      | Some s \<Rightarrow> (case map_of s i of None \<Rightarrow> Inl (LabelError i) | Some v \<Rightarrow> Inr v))"

definition torch_tensor :: "cell \<Rightarrow> error + cell" where
  "torch_tensor c = (case c of Str _ \<Rightarrow> Inl TypeError | _ \<Rightarrow> Inr c)"

fun tensors_at ::
  "(string \<rightharpoonup> series) \<Rightarrow> nat \<Rightarrow> (string \<times> string) list \<Rightarrow> error + (string \<times> cell) list" where
  "tensors_at self i [] = Inr []"
| "tensors_at self i ((k, attr) # rest) =
     bindE (at_label self attr i) (\<lambda>c. bindE (torch_tensor c) (\<lambda>t.
       bindE (tensors_at self i rest) (\<lambda>ps. Inr ((k, t) # ps))))"

text \<open>
  \<^verbatim>\<open>SentimentData.__getitem__\<close>. \<open>tokenize\<close> stands for the lines that turn the text cell
  into \<^verbatim>\<open>ids\<close>, \<^verbatim>\<open>mask\<close> and \<^verbatim>\<open>token_type_ids\<close> (\<^verbatim>\<open>str\<close>, the whitespace normalisation
  and \<^verbatim>\<open>tokenizer.encode_plus\<close>). The other entries of the dict (key, then attribute) are
  all read at the same label \<open>index\<close>.
\<close>

definition SentimentData_getitem ::
  "(cell \<Rightarrow> int list \<times> int list \<times> int list) \<Rightarrow> (string \<rightharpoonup> series) \<Rightarrow> nat \<Rightarrow>
   error + (string \<times> cell) list" where
  "SentimentData_getitem tokenize self i =
     bindE (at_label self ''text'' i) (\<lambda>text.
       case tokenize text of (ids, mask_v, token_type_ids_v) \<Rightarrow>
         bindE (tensors_at self i
           [(''targets'', ''targets''), (''gcn_bert_base'', ''gcn_bert_base''),
            (''char_density'', ''char_density''), (''char_number'', ''char_number''),
            (''visual_feature'', ''visual_feature''), (''parsing1'', ''parsing1''),
            (''parsing2'', ''parsing2''), (''pos_emb'', ''pos_emb''),
            (''visual'', ''visual'')])
         (\<lambda>ps. Inr ([(''ids'', Ints ids), (''mask'', Ints mask_v),
                      (''token_type_ids'', Ints token_type_ids_v)] @ ps)))"

text \<open>
  The test set of the notebook: \<^verbatim>\<open>new_df_test\<close> is \<^verbatim>\<open>df_test\<close> restricted to eleven
  columns, and \<^verbatim>\<open>test_set = SentimentData(new_df_test, tokenizer, MAX_LEN)\<close>.
\<close>

definition test_set :: "frame \<Rightarrow> error + (string \<rightharpoonup> series)" where
  "test_set df_test =
     bindE (select df_test
       [''text'', ''label'', ''near_visual_feature'', ''gcn_near_char_density'',
        ''gcn_near_char_number'', ''gcn_parsing1'', ''gcn_parsing2'', ''gcn_bert_base'',
        ''gcn_pos_emb'', ''visual_embedding'', ''gcn_bert_large''])
     SentimentData_init"









definition dataset_table :: frame where
  "dataset_table =
     \<lparr>index = [0],
      columns = map_of
        [(''text'', [Str ''Date:'']), (''label'', [Num 1]),
         (''near_visual_feature'', [Vec [4]]), (''gcn_near_char_density'', [Vec [2]]),
         (''gcn_near_char_number'', [Vec [3]]), (''gcn_parsing1'', [Vec [5]]),
         (''gcn_parsing2'', [Vec [6]]), (''gcn_bert_base'', [Vec [7]]),
         (''gcn_pos_emb'', [Vec [8]]), (''gcn_bert_large'', [Vec [9]])]\<rparr>"

definition train_visual_table :: frame where
  "train_visual_table = \<lparr>index = [0], columns = map_of [(''visual_embedding'', [Vec [1]])]\<rparr>"

definition test_visual_table :: frame where
  "test_visual_table = \<lparr>index = [0], columns = map_of [(''visual_embedding'', [Vec [2]])]\<rparr>"

definition fixed_tokens :: "cell \<Rightarrow> int list \<times> int list \<times> int list" where
  "fixed_tokens text = ([101, 102], [1, 1], [0, 0])"

section \<open>Shapes through the forward pass\<close>

lemma has_shape_nth: "has_shape n d t \<longleftrightarrow> length t = n \<and> (\<forall>i<n. length (t ! i) = d)"
  by (auto simp: has_shape_def list_all_length)

lemma length_linear_row: "length (linear_row L r) = out_features L"
  by (simp add: linear_row_def)

lemma apply_linear_shape:
  "has_shape n (in_features L) x \<Longrightarrow>
   apply_linear L x = Some (map (linear_row L) x) \<and>
   has_shape n (out_features L) (map (linear_row L) x)"
  by (simp add: apply_linear_def has_shape_def list_all_iff length_linear_row)

lemma apply_linear_eq_Some:
  "apply_linear L x = Some y \<longleftrightarrow>
     list_all (\<lambda>r. length r = in_features L) x \<and> y = map (linear_row L) x"
  by (auto simp: apply_linear_def)

lemma Tanh_shape: "has_shape n d (Tanh x) = has_shape n d x"
  by (simp add: Tanh_def has_shape_def list_all_iff)

lemma Dropout_shape: "has_shape n d (Dropout p tr k x) = has_shape n d x"
  by (auto simp: Dropout_def has_shape_nth)

lemma length_Tanh: "length (Tanh x) = length x"
  by (simp add: Tanh_def)

lemma length_Dropout: "length (Dropout p tr k x) = length x"
  by (simp add: Dropout_def)

text \<open>The three behaviours of \<^verbatim>\<open>Dropout(0.1)\<close> on one entry.\<close>

lemma Dropout_examples:
  "Dropout (1 / 10) True (\<lambda>_ _. True) [[9]] = [[10]]"
  "Dropout (1 / 10) True (\<lambda>_ _. False) [[9]] = [[0]]"
  "Dropout p False k x = x"
  by (simp_all add: Dropout_def)

lemma act_shape: "has_shape n d (Dropout p tr k (Tanh x)) = has_shape n d x"
  by (simp add: Dropout_shape Tanh_shape)

lemma project_shape:
  "out_features L = d \<Longrightarrow> n = length x \<Longrightarrow> has_shape n d (project M rnd k L x)"
  unfolding project_def
  by (simp add: act_shape) (simp add: has_shape_def list_all_iff length_linear_row)

lemma length_project: "length (project M rnd k L x) = length x"
  by (simp add: project_def length_Dropout length_Tanh)

lemma pool_pair:
  "map pool_rows (map2 (\<lambda>r s. [r, s]) a b) = map2 (\<lambda>r s. [map2 max r s]) a b"
  by (induction a arbitrary: b) (auto split: list.splits)

lemma pooling_pair:
  assumes "poolable a b"
  shows "pooling (map2 (\<lambda>r s. [r, s]) a b) = Some (map2 (\<lambda>r s. [map2 max r s]) a b)"
proof -
  from assms have ne: "a \<noteq> []" and all: "list_all2 (\<lambda>r s. length r = length s \<and> r \<noteq> []) a b"
    by (simp_all add: poolable_def)
  from all have "length a = length b"
    by (rule list_all2_lengthD)
  with ne have 1: "map2 (\<lambda>r s. [r, s]) a b \<noteq> []"
    by (cases a; cases b) simp_all
  from all have 2: "list_all (\<lambda>c. 2 \<le> length c \<and> list_all (\<lambda>r. r \<noteq> []) c)
                      (map2 (\<lambda>r s. [r, s]) a b)"
    by (induction a b rule: list_all2_induct) auto
  show ?thesis
    unfolding pooling_def pool_pair using 1 2 by simp
qed

lemma pooling_pair_None:
  assumes "list_all2 (\<lambda>r s. length r = length s) a b" and "\<not> poolable a b"
  shows "pooling (map2 (\<lambda>r s. [r, s]) a b) = None"
proof (cases "a = []")
  case True
  then show ?thesis by (simp add: pooling_def)
next
  case False
  with assms(2) have "\<not> list_all2 (\<lambda>r s. length r = length s \<and> r \<noteq> []) a b"
    by (simp add: poolable_def)
  with assms(1) have "\<not> list_all (\<lambda>c. 2 \<le> length c \<and> list_all (\<lambda>r. r \<noteq> []) c)
                      (map2 (\<lambda>r s. [r, s]) a b)"
    by (induction a b rule: list_all2_induct) auto
  then show ?thesis
    by (simp add: pooling_def)
qed

lemma pooled_pair_squeezes:
  "squeeze1 (map2 (\<lambda>r s. [map2 max r s]) a b) = Some (map2 (map2 max) a b)"
proof -
  have 2: "list_all (\<lambda>c. length c = 1) (map2 (\<lambda>r s. [map2 max r s]) a b)"
    by (auto simp: list_all_iff in_set_zip)
  have 3: "map hd (map2 (\<lambda>r s. [map2 max r s]) a b) = map2 (map2 max) a b"
    by (induction a arbitrary: b) (auto split: list.splits)
  show ?thesis
    unfolding squeeze1_def using 2 3 by simp
qed

lemma poolable_same_widths:
  "poolable a b \<Longrightarrow> list_all2 (\<lambda>r s. length r = length s) a b"
  unfolding poolable_def by (auto elim: list_all2_mono)

lemma fuse_bind:
  "cat_unsqueeze a b \<bind> (\<lambda>t. pooling t \<bind> (\<lambda>t. squeeze1 t \<bind> f)) =
   (if poolable a b then f (map2 (map2 max) a b) else None)"
proof (cases "list_all2 (\<lambda>r s. length r = length s) a b")
  case True
  then have c: "cat_unsqueeze a b = Some (map2 (\<lambda>r s. [r, s]) a b)"
    by (simp add: cat_unsqueeze_def)
  show ?thesis
  proof (cases "poolable a b")
    case True
    then show ?thesis
      by (simp only: c pooling_pair[OF True] pooled_pair_squeezes Option.bind.simps if_True)
  next
    case False
    then show ?thesis
      by (simp only: c pooling_pair_None[OF True False] Option.bind.simps if_False)
  qed
next
  case False
  then have "cat_unsqueeze a b = None"
    by (simp add: cat_unsqueeze_def)
  moreover from False have "\<not> poolable a b"
    using poolable_same_widths by blast
  ultimately show ?thesis
    by simp
qed

lemma shapes_poolable:
  "has_shape n d a \<Longrightarrow> has_shape n d b \<Longrightarrow> 0 < n \<Longrightarrow> 0 < d \<Longrightarrow> poolable a b"
  by (auto simp: has_shape_nth poolable_def list_all2_conv_all_nth)

lemma map2_max_shape:
  "has_shape n d a \<Longrightarrow> has_shape n d b \<Longrightarrow> has_shape n d (map2 (map2 max) a b)"
  by (auto simp: has_shape_nth)

lemma has_shape_append:
  "has_shape n d x \<Longrightarrow> has_shape n e y \<Longrightarrow> has_shape n (d + e) (map2 (@) x y)"
  by (auto simp: has_shape_nth)

lemma fused_widths:
  assumes "poolable x y"
    and "list_all (\<lambda>r. length r = d) (map2 (map2 max) x y)"
  shows "has_shape (length x) d x \<and> has_shape (length x) d y \<and> 0 < length x"
proof -
  from assms(1) have "x \<noteq> []" and "list_all2 (\<lambda>r s. length r = length s) x y"
    by (simp add: poolable_def, rule poolable_same_widths)
  from this(2) assms(2) have "has_shape (length x) d x \<and> has_shape (length x) d y"
    by (induction x y rule: list_all2_induct) (auto simp: has_shape_def)
  with \<open>x \<noteq> []\<close> show ?thesis by simp
qed

lemma layer_dims:
  assumes "M = (RobertaClass_init enc w b)\<lparr>training := tr\<rparr>"
  shows "in_features (pre_classifier M) = 768"
    "out_features (pre_classifier M) = 768"
    "in_features (h1 M) = 768"
    "out_features (h1 M) = 768"
    "in_features (h2 M) = 768"
    "out_features (h2 M) = 768"
    "in_features (h3 M) = 768"
    "out_features (h3 M) = 768"
    "in_features (h4 M) = 768"
    "out_features (h4 M) = 768"
    "in_features (hidden1 M) = 2048"
    "out_features (hidden1 M) = 768"
    "in_features (hidden2 M) = 3072"
    "out_features (hidden2 M) = 512"
    "in_features (hidden3 M) = 3072"
    "out_features (hidden3 M) = 3072"
    "in_features (classifier M) = 512"
    "out_features (classifier M) = 4"
    "l1 M = enc"
    "training M = tr"
  using assms by (simp_all add: RobertaClass_init_def Linear_def)

lemma linear_stage:
  "has_shape n d x \<Longrightarrow> in_features L = d \<Longrightarrow>
   apply_linear L x = Some (map (linear_row L) x) \<and>
   has_shape n (out_features L) (Dropout p tr k (Tanh (map (linear_row L) x)))"
  using apply_linear_shape[of n L x] by (simp add: act_shape)

lemma fuse_stage:
  "has_shape n d x \<Longrightarrow> has_shape n d y \<Longrightarrow> 0 < n \<Longrightarrow> 0 < d \<Longrightarrow>
   cat_unsqueeze x y \<bind> (\<lambda>t. pooling t \<bind> (\<lambda>t. squeeze1 t \<bind> f)) = f (map2 (map2 max) x y)
   \<and> has_shape n d (map2 (map2 max) x y)"
  by (simp add: fuse_bind shapes_poolable map2_max_shape)

lemma select_first_shape:
  "length hs = n \<Longrightarrow> list_all (\<lambda>h. h \<noteq> [] \<and> length (hd h) = d) hs \<Longrightarrow>
   select_first hs = Some (map hd hs) \<and> has_shape n d (map hd hs)"
  by (auto simp: select_first_def has_shape_def list_all_iff)

lemma forward_branches_succeeds:
  assumes M: "M = (RobertaClass_init enc w b)\<lparr>training := tr\<rparr>"
    and enc: "enc tr (enc_rnd rnd) (input_ids a) (attention_mask a) (token_type_ids a) = Some hs"
    and hs: "length hs = n" "list_all (\<lambda>h. h \<noteq> [] \<and> length (hd h) = 768) hs"
    and aux: "has_shape n 768 (gcn_bert_base a)" "has_shape n 768 (parsing1 a)"
      "has_shape n 768 (parsing2 a)" "has_shape n 768 (char_density a)"
      "has_shape n 768 (char_number a)" "has_shape n 768 (visual_feature a)"
      "has_shape n 2048 (visual a)"
    and n: "0 < n"
  shows "forward_branches M rnd a = Some
     (fuse_project M rnd 1 (h1 M) (project M rnd 0 (pre_classifier M) (map hd hs))
        (gcn_bert_base a),
      fuse_project M rnd 5 (h4 M) (project M rnd 4 (hidden1 M) (visual a)) (visual_feature a),
      fuse_project M rnd 2 (h2 M) (parsing1 a) (parsing2 a),
      fuse_project M rnd 3 (h3 M) (char_density a) (char_number a))"
    and "has_shape n 768 (fuse_project M rnd 1 (h1 M)
           (project M rnd 0 (pre_classifier M) (map hd hs)) (gcn_bert_base a))"
    and "has_shape n 768 (fuse_project M rnd 5 (h4 M)
           (project M rnd 4 (hidden1 M) (visual a)) (visual_feature a))"
    and "has_shape n 768 (fuse_project M rnd 2 (h2 M) (parsing1 a) (parsing2 a))"
    and "has_shape n 768 (fuse_project M rnd 3 (h3 M) (char_density a) (char_number a))"
proof -
  note d = layer_dims[OF M]
  have w: "0 < (768::nat)" by simp
  have e: "l1 M (training M) (enc_rnd rnd) (input_ids a) (attention_mask a) (token_type_ids a)
             = Some hs"
    using enc by (simp add: d)
  note s0 = select_first_shape[OF hs]
  note s1 = linear_stage[OF conjunct2[OF s0] d(1), of "dropout M" "training M" "keep rnd 0"]
  note s2 = fuse_stage[OF conjunct2[OF s1, unfolded d(2)] aux(1) n w]
  note s3 = linear_stage[OF conjunct2[OF s2] d(3), of "dropout M" "training M" "keep rnd 1"]
  note s4 = fuse_stage[OF aux(2) aux(3) n w]
  note s5 = linear_stage[OF conjunct2[OF s4] d(5), of "dropout M" "training M" "keep rnd 2"]
  note s6 = fuse_stage[OF aux(4) aux(5) n w]
  note s7 = linear_stage[OF conjunct2[OF s6] d(7), of "dropout M" "training M" "keep rnd 3"]
  note s8 = linear_stage[OF aux(7) d(11), of "dropout M" "training M" "keep rnd 4"]
  note s9 = fuse_stage[OF conjunct2[OF s8, unfolded d(12)] aux(6) n w]
  note s10 = linear_stage[OF conjunct2[OF s9] d(9), of "dropout M" "training M" "keep rnd 5"]
  show "forward_branches M rnd a = Some
     (fuse_project M rnd 1 (h1 M) (project M rnd 0 (pre_classifier M) (map hd hs))
        (gcn_bert_base a),
      fuse_project M rnd 5 (h4 M) (project M rnd 4 (hidden1 M) (visual a)) (visual_feature a),
      fuse_project M rnd 2 (h2 M) (parsing1 a) (parsing2 a),
      fuse_project M rnd 3 (h3 M) (char_density a) (char_number a))"
    unfolding forward_branches_def fuse_project_def project_def
    by (simp only: e Option.bind.simps Let_def conjunct1[OF s0] conjunct1[OF s1]
        conjunct1[OF s2] conjunct1[OF s3] conjunct1[OF s4] conjunct1[OF s5] conjunct1[OF s6]
        conjunct1[OF s7] conjunct1[OF s8] conjunct1[OF s9] conjunct1[OF s10])
  show "has_shape n 768 (fuse_project M rnd 1 (h1 M)
           (project M rnd 0 (pre_classifier M) (map hd hs)) (gcn_bert_base a))"
    unfolding fuse_project_def project_def using conjunct2[OF s3] by (simp only: d)
  show "has_shape n 768 (fuse_project M rnd 5 (h4 M)
           (project M rnd 4 (hidden1 M) (visual a)) (visual_feature a))"
    unfolding fuse_project_def project_def using conjunct2[OF s10] by (simp only: d)
  show "has_shape n 768 (fuse_project M rnd 2 (h2 M) (parsing1 a) (parsing2 a))"
    unfolding fuse_project_def project_def using conjunct2[OF s5] by (simp only: d)
  show "has_shape n 768 (fuse_project M rnd 3 (h3 M) (char_density a) (char_number a))"
    unfolding fuse_project_def project_def using conjunct2[OF s7] by (simp only: d)
qed

lemma forward_branches_Some:
  assumes M: "M = (RobertaClass_init enc w b)\<lparr>training := tr\<rparr>"
    and ok: "forward_branches M rnd a = Some (P, V, G, D)"
  shows "has_shape (length P) 768 P" "has_shape (length V) 768 V"
    "has_shape (length G) 768 G" "has_shape (length D) 768 D"
    "has_shape (length P) 768 (gcn_bert_base a)"
    "has_shape (length G) 768 (parsing1 a)" "has_shape (length G) 768 (parsing2 a)"
    "has_shape (length D) 768 (char_density a)" "has_shape (length D) 768 (char_number a)"
    "has_shape (length V) 2048 (visual a)" "has_shape (length V) 768 (visual_feature a)"
    "D = fuse_project M rnd 3 (h3 M) (char_density a) (char_number a)"
    "\<exists>hs. enc tr (enc_rnd rnd) (input_ids a) (attention_mask a) (token_type_ids a) = Some hs
       \<and> length hs = length P"
    "0 < length P"
proof -
  note d = layer_dims[OF M]
  from ok obtain hs p0 vi where
    hs: "enc tr (enc_rnd rnd) (input_ids a) (attention_mask a) (token_type_ids a) = Some hs"
    and p0: "p0 = project M rnd 0 (pre_classifier M) (map hd hs)"
    and g1: "poolable p0 (gcn_bert_base a)"
    and l1: "list_all (\<lambda>r. length r = 768) (map2 (map2 max) p0 (gcn_bert_base a))"
    and P: "P = fuse_project M rnd 1 (h1 M) p0 (gcn_bert_base a)"
    and g2: "poolable (parsing1 a) (parsing2 a)"
    and l2: "list_all (\<lambda>r. length r = 768) (map2 (map2 max) (parsing1 a) (parsing2 a))"
    and G: "G = fuse_project M rnd 2 (h2 M) (parsing1 a) (parsing2 a)"
    and g3: "poolable (char_density a) (char_number a)"
    and l3: "list_all (\<lambda>r. length r = 768) (map2 (map2 max) (char_density a) (char_number a))"
    and D: "D = fuse_project M rnd 3 (h3 M) (char_density a) (char_number a)"
    and lv: "list_all (\<lambda>r. length r = 2048) (visual a)"
    and vi: "vi = project M rnd 4 (hidden1 M) (visual a)"
    and g4: "poolable vi (visual_feature a)"
    and l4: "list_all (\<lambda>r. length r = 768) (map2 (map2 max) vi (visual_feature a))"
    and V: "V = fuse_project M rnd 5 (h4 M) vi (visual_feature a)"
    unfolding forward_branches_def fuse_project_def project_def
    by (auto simp: fuse_bind bind_eq_Some_conv apply_linear_eq_Some select_first_def
        Let_def d split: if_splits)
  note w1 = poolable_same_widths[OF g1, THEN list_all2_lengthD]
  note w2 = poolable_same_widths[OF g2, THEN list_all2_lengthD]
  note w3 = poolable_same_widths[OF g3, THEN list_all2_lengthD]
  note w4 = poolable_same_widths[OF g4, THEN list_all2_lengthD]
  show "D = fuse_project M rnd 3 (h3 M) (char_density a) (char_number a)"
    by (fact D)
  have lenp0: "length p0 = length hs"
    unfolding p0 by (simp add: length_project)
  have lenP: "length P = length (gcn_bert_base a)"
    unfolding P fuse_project_def length_project using w1 by simp
  have lenG: "length G = length (parsing1 a)"
    unfolding G fuse_project_def length_project using w2 by simp
  have lenD: "length D = length (char_density a)"
    unfolding D fuse_project_def length_project using w3 by simp
  have lenvi: "length vi = length (visual a)"
    unfolding vi by (simp add: length_project)
  have lenV: "length V = length vi"
    unfolding V fuse_project_def length_project using w4 by simp
  show "\<exists>hs. enc tr (enc_rnd rnd) (input_ids a) (attention_mask a) (token_type_ids a) = Some hs
       \<and> length hs = length P"
    using hs lenp0 lenP w1 by auto
  show "0 < length P"
    using fused_widths[OF g1 l1] lenP w1 by simp
  show "has_shape (length P) 768 P"
    unfolding P fuse_project_def by (rule project_shape) (simp_all add: d length_project)
  show "has_shape (length V) 768 V"
    unfolding V fuse_project_def by (rule project_shape) (simp_all add: d length_project)
  show "has_shape (length G) 768 G"
    unfolding G fuse_project_def by (rule project_shape) (simp_all add: d length_project)
  show "has_shape (length D) 768 D"
    unfolding D fuse_project_def by (rule project_shape) (simp_all add: d length_project)
  show "has_shape (length P) 768 (gcn_bert_base a)"
    using fused_widths[OF g1 l1] lenP w1 by simp
  show "has_shape (length G) 768 (parsing1 a)" "has_shape (length G) 768 (parsing2 a)"
    using fused_widths[OF g2 l2] lenG by simp_all
  show "has_shape (length D) 768 (char_density a)" "has_shape (length D) 768 (char_number a)"
    using fused_widths[OF g3 l3] lenD by simp_all
  show "has_shape (length V) 2048 (visual a)"
    using lv lenV lenvi by (simp add: has_shape_def)
  show "has_shape (length V) 768 (visual_feature a)"
    using fused_widths[OF g4 l4] lenV lenvi by simp
qed

lemma forward_concat_Some:
  assumes "forward_concat M rnd a = Some c"
  shows "\<exists>P V G D. forward_branches M rnd a = Some (P, V, G, D) \<and>
           c = map2 (@) P (map2 (@) V (map2 (@) G (char_density a))) \<and>
           length P = length c \<and> length V = length c \<and> length G = length c \<and>
           length (char_density a) = length c"
  using assms unfolding forward_concat_def
  by (auto simp: bind_eq_Some_conv split: if_splits)

lemma forward_Some:
  assumes M: "M = (RobertaClass_init enc w b)\<lparr>training := tr\<rparr>"
    and ok: "forward M rnd a = Some out"
  shows "\<exists>c. forward_concat M rnd a = Some c \<and> has_shape (length c) 3072 c \<and>
           has_shape (length c) 4 out"
proof -
  note d = layer_dims[OF M]
  from ok obtain c x where c: "forward_concat M rnd a = Some c"
    and w: "list_all (\<lambda>r. length r = 3072) c"
    and out: "out = map (linear_row (classifier M)) x"
    and x: "x = project M rnd 7 (hidden2 M) (project M rnd 6 (hidden3 M) c)"
    unfolding forward_def project_def
    by (auto simp: bind_eq_Some_conv apply_linear_eq_Some Let_def d)
  have "length x = length c"
    unfolding x by (simp add: length_project)
  then have "has_shape (length c) 4 out"
    unfolding out by (simp add: has_shape_def list_all_iff length_linear_row d)
  with c w show ?thesis
    by (auto simp: has_shape_def)
qed

lemma forward_succeeds:
  assumes M: "M = (RobertaClass_init enc w b)\<lparr>training := tr\<rparr>"
    and enc: "enc tr (enc_rnd rnd) (input_ids a) (attention_mask a) (token_type_ids a) = Some hs"
    and hs: "length hs = n" "list_all (\<lambda>h. h \<noteq> [] \<and> length (hd h) = 768) hs"
    and aux: "has_shape n 768 (gcn_bert_base a)" "has_shape n 768 (parsing1 a)"
      "has_shape n 768 (parsing2 a)" "has_shape n 768 (char_density a)"
      "has_shape n 768 (char_number a)" "has_shape n 768 (visual_feature a)"
      "has_shape n 2048 (visual a)"
    and n: "0 < n"
  shows "\<exists>out. forward M rnd a = Some out \<and> has_shape n 4 out"
proof -
  note d = layer_dims[OF M]
  note fb = forward_branches_succeeds[OF M enc hs aux n]
  obtain P V G D where
    br: "forward_branches M rnd a = Some (P, V, G, D)"
    and sh: "has_shape n 768 P" "has_shape n 768 V" "has_shape n 768 G"
    using fb(1-4) by blast
  let ?c = "map2 (@) P (map2 (@) V (map2 (@) G (char_density a)))"
  have "has_shape n (768 + (768 + (768 + 768))) ?c"
    by (intro has_shape_append sh aux)
  then have c: "has_shape n 3072 ?c" by simp
  have cat: "forward_concat M rnd a = Some ?c"
    using sh aux(4) unfolding forward_concat_def
    by (simp add: br has_shape_def)
  note s1 = linear_stage[OF c d(15), of "dropout M" "training M" "keep rnd 6"]
  note s2 = linear_stage[OF conjunct2[OF s1, unfolded d(16)] d(13),
      of "dropout M" "training M" "keep rnd 7"]
  note s3 = apply_linear_shape[OF conjunct2[OF s2, unfolded d(14), folded d(17)]]
  have "forward M rnd a = Some (map (linear_row (classifier M))
      (Dropout (dropout M) (training M) (keep rnd 7) (Tanh (map (linear_row (hidden2 M))
         (Dropout (dropout M) (training M) (keep rnd 6)
            (Tanh (map (linear_row (hidden3 M)) ?c)))))))"
    unfolding forward_def
    by (simp only: cat Option.bind.simps Let_def conjunct1[OF s1] conjunct1[OF s2]
        conjunct1[OF s3])
  then show ?thesis
    using conjunct2[OF s3] by (simp add: d)
qed

text \<open>
  Whatever the weights, the last 768 columns of the tensor passed to \<^verbatim>\<open>hidden3\<close> are the
  argument \<^verbatim>\<open>char_density\<close> itself.
\<close>

lemma drop_block:
  "has_shape n d x \<Longrightarrow> length y = n \<Longrightarrow> map (drop d) (map2 (@) x y) = y"
  by (auto simp: has_shape_nth intro!: nth_equalityI)

lemma forward_concat_ends_with_char_density:
  assumes "forward_concat ((RobertaClass_init enc w b)\<lparr>training := tr\<rparr>) rnd a = Some c"
  shows "map (drop 2304) c = char_density a"
proof -
  define M where "M = (RobertaClass_init enc w b)\<lparr>training := tr\<rparr>"
  from forward_concat_Some[OF assms[folded M_def]] obtain P V G D where
    br: "forward_branches M rnd a = Some (P, V, G, D)"
    and c: "c = map2 (@) P (map2 (@) V (map2 (@) G (char_density a)))"
    and len: "length P = length c" "length V = length c" "length G = length c"
      "length (char_density a) = length c"
    by blast
  note s = forward_branches_Some[OF M_def br]
  have "map (drop 768) (map2 (@) G (char_density a)) = char_density a"
    using s(3) len by (intro drop_block) simp_all
  moreover have "map (drop 768) (map2 (@) V (map2 (@) G (char_density a)))
      = map2 (@) G (char_density a)"
    using s(2) len by (intro drop_block) simp_all
  moreover have "map (drop 768) c = map2 (@) V (map2 (@) G (char_density a))"
    unfolding c using s(1) len by (intro drop_block) simp_all
  moreover have "map (drop 2304) c = map (drop 768) (map (drop 768) (map (drop 768) c))"
    by simp
  ultimately show ?thesis
    by simp
qed

section \<open>The module with zero weights on two examples\<close>

lemma zero_model_eq:
  "zero_model = (RobertaClass_init zero_encoder (\<lambda>_ _ _. 0) (\<lambda>_ _. 0))\<lparr>training := False\<rparr>"
  by (simp add: zero_model_def)

lemma linear_row_zero:
  "linear_row L r = replicate (out_features L) 0"
  if "weight L = (\<lambda>_ _. 0)" "bias L = (\<lambda>_. 0)"
proof -
  have "sum_list (map (\<lambda>j. r ! j * 0) [0..<n]) = (0::real)" for n
    by (induction n) simp_all
  then show ?thesis
    using that by (simp add: linear_row_def map_replicate_const)
qed

lemma project_zero:
  assumes "weight L = (\<lambda>_ _. 0)" "bias L = (\<lambda>_. 0)" "training M = False"
  shows "project M rnd k L x = replicate (length x) (replicate (out_features L) 0)"
proof -
  have "map (linear_row L) x = replicate (length x) (replicate (out_features L) 0)"
    by (induction x) (simp_all add: linear_row_zero[OF assms(1,2)])
  then show ?thesis
    using assms(3) by (simp add: project_def Dropout_def Tanh_def)
qed

lemma zero_model_layers:
  "weight (pre_classifier zero_model) = (\<lambda>_ _. 0)" "bias (pre_classifier zero_model) = (\<lambda>_. 0)"
  "weight (h1 zero_model) = (\<lambda>_ _. 0)" "bias (h1 zero_model) = (\<lambda>_. 0)"
  "weight (h2 zero_model) = (\<lambda>_ _. 0)" "bias (h2 zero_model) = (\<lambda>_. 0)"
  "weight (h3 zero_model) = (\<lambda>_ _. 0)" "bias (h3 zero_model) = (\<lambda>_. 0)"
  "weight (h4 zero_model) = (\<lambda>_ _. 0)" "bias (h4 zero_model) = (\<lambda>_. 0)"
  "weight (hidden1 zero_model) = (\<lambda>_ _. 0)" "bias (hidden1 zero_model) = (\<lambda>_. 0)"
  "weight (hidden2 zero_model) = (\<lambda>_ _. 0)" "bias (hidden2 zero_model) = (\<lambda>_. 0)"
  "weight (hidden3 zero_model) = (\<lambda>_ _. 0)" "bias (hidden3 zero_model) = (\<lambda>_. 0)"
  "weight (classifier zero_model) = (\<lambda>_ _. 0)" "bias (classifier zero_model) = (\<lambda>_. 0)"
  "training zero_model = False"
  by (simp_all add: zero_model_def RobertaClass_init_def Linear_def)

lemma two_examples_shapes:
  "has_shape 2 768 (gcn_bert_base (two_examples vw pe))"
  "has_shape 2 768 (parsing1 (two_examples vw pe))"
  "has_shape 2 768 (parsing2 (two_examples vw pe))"
  "has_shape 2 768 (char_density (two_examples vw pe))"
  "has_shape 2 768 (char_number (two_examples vw pe))"
  "has_shape 2 768 (visual_feature (two_examples vw pe))"
  "has_shape 2 vw (visual (two_examples vw pe))"
  by (simp_all add: two_examples_def has_shape_def)

lemma zero_encoder_two_examples:
  "zero_encoder tr (enc_rnd rnd) (input_ids (two_examples vw pe))
     (attention_mask (two_examples vw pe)) (token_type_ids (two_examples vw pe))
   = Some [[replicate 768 0], [replicate 768 0]]"
  "length [[replicate 768 (0::real)], [replicate 768 0]] = 2"
  "list_all (\<lambda>h. h \<noteq> [] \<and> length (hd h) = 768) [[replicate 768 (0::real)], [replicate 768 0]]"
  by (simp_all add: zero_encoder_def two_examples_def)

lemma fuse_project_zero:
  assumes "weight L = (\<lambda>_ _. 0)" "bias L = (\<lambda>_. 0)" "training M = False"
    "has_shape 2 d x" "has_shape 2 d y"
  shows "fuse_project M rnd k L x y = [replicate (out_features L) 0, replicate (out_features L) 0]"
proof -
  have "length (map2 (map2 max) x y) = 2"
    using assms(4,5) by (simp add: has_shape_def)
  then show ?thesis
    unfolding fuse_project_def project_zero[OF assms(1-3)]
    by (simp add: numeral_2_eq_2)
qed

lemma forward_branches_two_examples:
  "forward_branches zero_model rnd (two_examples 2048 pe) =
     Some ([replicate 768 0, replicate 768 0], [replicate 768 0, replicate 768 0],
           [replicate 768 0, replicate 768 0], [replicate 768 0, replicate 768 0])"
proof -
  have n: "0 < (2::nat)" by simp
  note fb = forward_branches_succeeds[OF zero_model_eq zero_encoder_two_examples
      two_examples_shapes n, of rnd pe]
  note z = zero_model_layers
  note d = layer_dims[OF zero_model_eq]
  have p0: "has_shape 2 768 (project zero_model rnd 0 (pre_classifier zero_model)
              (map hd [[replicate 768 0], [replicate 768 0]]))"
    by (simp add: project_zero[OF z(1,2,19)] has_shape_def d)
  have p4: "has_shape 2 768 (project zero_model rnd 4 (hidden1 zero_model)
              (visual (two_examples 2048 pe)))"
    using two_examples_shapes(7)[of 2048 pe]
    by (simp add: project_zero[OF z(11,12,19)] has_shape_def d numeral_2_eq_2)
  show ?thesis
    unfolding fb(1)
      fuse_project_zero[OF z(3,4,19) p0 two_examples_shapes(1)]
      fuse_project_zero[OF z(9,10,19) p4 two_examples_shapes(6)]
      fuse_project_zero[OF z(5,6,19) two_examples_shapes(2,3)]
      fuse_project_zero[OF z(7,8,19) two_examples_shapes(4,5)]
    by (simp add: d)
qed

lemma forward_concat_two_examples:
  "forward_concat zero_model rnd (two_examples 2048 pe) =
     Some [replicate 2304 0 @ replicate 768 1, replicate 2304 0 @ replicate 768 1]"
  unfolding forward_concat_def forward_branches_two_examples
  by (simp add: two_examples_def replicate_add[symmetric])

lemma fused_concat_two_examples:
  "fused_concat zero_model rnd (two_examples 2048 pe) =
     Some [replicate 3072 0, replicate 3072 0]"
  unfolding fused_concat_def forward_branches_two_examples
  by (simp add: replicate_add[symmetric])

lemma forward_two_examples:
  "forward zero_model rnd (two_examples 2048 pe) = Some [[0, 0, 0, 0], [0, 0, 0, 0]]"
proof -
  note z = zero_model_layers
  note d = layer_dims[OF zero_model_eq]
  have r4: "replicate 4 (0::real) = [0, 0, 0, 0]"
    by (simp add: numeral_eq_Suc)
  show ?thesis
    unfolding forward_def forward_concat_two_examples
    by (simp add: apply_linear_def d z linear_row_zero Tanh_def Dropout_def Let_def r4)
qed

section \<open>The forward pass: claims\<close>

text \<open>
  Claim C6. Whenever \<^verbatim>\<open>forward\<close> of a module built by \<^verbatim>\<open>RobertaClass.__init__\<close> returns
  (whatever the weights, the encoder, the mode, the randomness and the batch size), every
  row of the result has exactly 4 logits, and the result has one row for each example:
  as many rows as the hidden state of the encoder has sequences and as each of the
  tensors \<^verbatim>\<open>gcn_bert_base\<close>, \<^verbatim>\<open>visual\<close>, \<^verbatim>\<open>visual_feature\<close>, \<^verbatim>\<open>parsing1\<close>, \<^verbatim>\<open>parsing2\<close>,
  \<^verbatim>\<open>char_density\<close> and \<^verbatim>\<open>char_number\<close> of the batch has rows.
\<close>

theorem forward_logits_shape:
  assumes "forward ((RobertaClass_init enc w b)\<lparr>training := tr\<rparr>) rnd a = Some out"
  shows "list_all (\<lambda>r. length r = 4) out \<and>
         (\<exists>hs. enc tr (enc_rnd rnd) (input_ids a) (attention_mask a) (token_type_ids a) = Some hs
            \<and> length out = length hs) \<and>
         length out = length (gcn_bert_base a) \<and>
         length out = length (visual a) \<and> length out = length (visual_feature a) \<and>
         length out = length (parsing1 a) \<and> length out = length (parsing2 a) \<and>
         length out = length (char_density a) \<and> length out = length (char_number a)"
proof -
  define M where "M = (RobertaClass_init enc w b)\<lparr>training := tr\<rparr>"
  from forward_Some[OF M_def assms[folded M_def]] obtain c where
    c: "forward_concat M rnd a = Some c" and out: "has_shape (length c) 4 out"
    by blast
  from forward_concat_Some[OF c] obtain P V G D where
    br: "forward_branches M rnd a = Some (P, V, G, D)"
    and len: "length P = length c" "length V = length c" "length G = length c"
      "length (char_density a) = length c"
    by blast
  note s = forward_branches_Some[OF M_def br]
  from s(13) len(1) out have
    "\<exists>hs. enc tr (enc_rnd rnd) (input_ids a) (attention_mask a) (token_type_ids a) = Some hs
        \<and> length out = length hs"
    by (auto simp: has_shape_def)
  then show ?thesis
    using out len s(5-11) by (simp add: has_shape_def)
qed

theorem forward_logits_shape_witness:
  "forward zero_model keep_all (two_examples 2048 ()) = Some [[0, 0, 0, 0], [0, 0, 0, 0]] \<and>
   list_all (\<lambda>r. length r = 4) [[0, 0, 0, 0], [0, 0, 0, 0::real]] \<and>
   length [[0, 0, 0, 0], [0, 0, 0, 0::real]] = length (gcn_bert_base (two_examples 2048 ()))"
  using forward_logits_shape[OF forward_two_examples[of keep_all "()", unfolded zero_model_eq]]
    forward_two_examples[of keep_all "()"]
  by simp

text \<open>
  Claim C2, amended. For a batch of 2 examples whose \<^verbatim>\<open>visual\<close> vectors have width 2048
  and whose \<^verbatim>\<open>visual_feature\<close>, \<^verbatim>\<open>parsing1\<close>, \<^verbatim>\<open>parsing2\<close>, \<^verbatim>\<open>char_density\<close>,
  \<^verbatim>\<open>char_number\<close> and \<^verbatim>\<open>gcn_bert_base\<close> vectors have width 768, and for which the encoder
  returns a hidden state of shape \<open>(2, L, 768)\<close> with \<open>L \<ge> 1\<close>, \<^verbatim>\<open>forward\<close> returns a
  tensor of shape \<open>(2, 4)\<close>. The claim as written gives \<^verbatim>\<open>visual\<close> the width 768, which
  \<^verbatim>\<open>hidden1 = Linear(2048, 768)\<close> rejects: see the counterexample.
\<close>

theorem forward_two_examples_succeeds:
  assumes "enc tr (enc_rnd rnd) (input_ids a) (attention_mask a) (token_type_ids a) = Some hs"
    and "length hs = 2" and "list_all (\<lambda>h. h \<noteq> [] \<and> length (hd h) = 768) hs"
    and "has_shape 2 2048 (visual a)" and "has_shape 2 768 (visual_feature a)"
    and "has_shape 2 768 (parsing1 a)" and "has_shape 2 768 (parsing2 a)"
    and "has_shape 2 768 (char_density a)" and "has_shape 2 768 (char_number a)"
    and "has_shape 2 768 (gcn_bert_base a)"
  shows "\<exists>out. forward ((RobertaClass_init enc w b)\<lparr>training := tr\<rparr>) rnd a = Some out \<and>
           has_shape 2 4 out"
  by (rule forward_succeeds[where enc = enc and hs = hs and w = w and b = b and tr = tr])
    (use assms in simp_all)

theorem forward_two_examples_succeeds_witness:
  "zero_encoder False (enc_rnd keep_all) (input_ids (two_examples 2048 ()))
     (attention_mask (two_examples 2048 ())) (token_type_ids (two_examples 2048 ()))
     = Some [[replicate 768 0], [replicate 768 0]] \<and>
   has_shape 2 2048 (visual (two_examples 2048 ())) \<and>
   has_shape 2 768 (visual_feature (two_examples 2048 ())) \<and>
   (\<exists>out. forward ((RobertaClass_init zero_encoder (\<lambda>_ _ _. 0) (\<lambda>_ _. 0))\<lparr>training := False\<rparr>)
            keep_all (two_examples 2048 ()) = Some out \<and> has_shape 2 4 out)"
  using forward_two_examples_succeeds[where enc = zero_encoder and tr = False
      and rnd = keep_all and a = "two_examples 2048 ()"
      and hs = "[[replicate 768 0], [replicate 768 0]]"
      and w = "\<lambda>_ _ _. 0" and b = "\<lambda>_ _. 0"]
    zero_encoder_two_examples(1)[where tr = False and rnd = keep_all and vw = 2048 and pe = "()"]
    zero_encoder_two_examples(2,3) two_examples_shapes[where vw = 2048 and pe = "()"]
  by simp

text \<open>
  Counterexample to claim C2 as written: a batch of 2 examples, every vector of width 768,
  on which \<^verbatim>\<open>forward\<close> raises although the encoder has returned its hidden state.
\<close>

theorem forward_visual_768_counterexample:
  "has_shape 2 768 (visual (two_examples 768 ())) \<and>
   has_shape 2 768 (visual_feature (two_examples 768 ())) \<and>
   has_shape 2 768 (parsing1 (two_examples 768 ())) \<and>
   has_shape 2 768 (parsing2 (two_examples 768 ())) \<and>
   has_shape 2 768 (char_density (two_examples 768 ())) \<and>
   has_shape 2 768 (char_number (two_examples 768 ())) \<and>
   forward zero_model keep_all (two_examples 768 ()) = None"
proof -
  have "forward zero_model keep_all (two_examples 768 ()) = None"
  proof (rule ccontr)
    assume "forward zero_model keep_all (two_examples 768 ()) \<noteq> None"
    then obtain out where "forward zero_model keep_all (two_examples 768 ()) = Some out"
      by blast
    from forward_Some[OF zero_model_eq this] obtain c where
      "forward_concat zero_model keep_all (two_examples 768 ()) = Some c"
      by blast
    from forward_concat_Some[OF this] obtain P V G D where
      "forward_branches zero_model keep_all (two_examples 768 ()) = Some (P, V, G, D)"
      by blast
    from forward_branches_Some(10)[OF zero_model_eq this]
    show False
      by (simp add: has_shape_def two_examples_def)
  qed
  then show ?thesis
    using two_examples_shapes[of 768 "()"] by simp
qed

text \<open>
  Claim C1 fails on the code. On the batch of two examples with all-one vectors and the
  module with zero weights, in evaluation mode, the tensor that \<^verbatim>\<open>forward\<close> passes to
  \<^verbatim>\<open>hidden3\<close> ends, in each row, with the 768 ones of the argument \<^verbatim>\<open>char_density\<close>; the
  concatenation of the fused branches ends with the 768 zeros of the fused \<^verbatim>\<open>density\<close>.
\<close>

theorem forward_concat_takes_char_density:
  "forward_concat zero_model keep_all (two_examples 2048 ()) =
     Some [replicate 2304 0 @ replicate 768 1, replicate 2304 0 @ replicate 768 1] \<and>
   fused_concat zero_model keep_all (two_examples 2048 ()) =
     Some [replicate 3072 0, replicate 3072 0] \<and>
   forward_concat zero_model keep_all (two_examples 2048 ()) \<noteq>
     fused_concat zero_model keep_all (two_examples 2048 ())"
proof -
  have "replicate 2304 0 @ replicate 768 1 \<noteq> replicate 3072 (0::real)"
  proof
    assume "replicate 2304 0 @ replicate 768 1 = replicate 3072 (0::real)"
    then have "drop 2304 (replicate 2304 0 @ replicate 768 1) = drop 2304 (replicate 3072 (0::real))"
      by simp
    then show False by simp
  qed
  then show ?thesis
    by (simp add: forward_concat_two_examples fused_concat_two_examples)
qed

lemma map2_max_commute: "map2 max r s = map2 max s r"
  for r s :: "real list"
proof (induction r arbitrary: s)
  case Nil
  then show ?case by simp
next
  case (Cons x r)
  then show ?case
    by (cases s) (simp_all add: max.commute)
qed

lemma map2_map2_max_commute: "map2 (map2 max) a b = map2 (map2 max) b a"
  for a b :: "real list list"
proof (induction a arbitrary: b)
  case Nil
  then show ?case by simp
next
  case (Cons r a)
  then show ?case
    by (cases b) (simp_all add: map2_max_commute[of r])
qed

lemma poolable_commute: "poolable a b = poolable b a"
proof -
  have "list_all2 (\<lambda>r s. length r = length s \<and> r \<noteq> []) x y \<Longrightarrow>
        list_all2 (\<lambda>r s. length r = length s \<and> r \<noteq> []) y x" for x y :: "real list list"
    by (induction x y rule: list_all2_induct) auto
  moreover have "list_all2 P x y \<Longrightarrow> x \<noteq> [] \<Longrightarrow> y \<noteq> []" for P and x y :: "real list list"
    by (cases x; cases y) simp_all
  ultimately show ?thesis
    unfolding poolable_def by blast
qed

text \<open>
  Claim C7. Stacking a pair in either order, pooling with \<^verbatim>\<open>MaxPool2d((2,1))\<close> and
  squeezing gives the same result (the same tensor, or an error in both orders); for two
  tensors of the same shape, with at least one entry, it is their entry-wise maximum.
\<close>

theorem pairwise_max_pool_commutes:
  "do { t \<leftarrow> cat_unsqueeze a b; t \<leftarrow> pooling t; squeeze1 t } =
   do { t \<leftarrow> cat_unsqueeze b a; t \<leftarrow> pooling t; squeeze1 t } \<and>
   (poolable a b \<longrightarrow>
    do { t \<leftarrow> cat_unsqueeze a b; t \<leftarrow> pooling t; squeeze1 t } = Some (map2 (map2 max) a b) \<and>
    map2 (map2 max) a b = map2 (map2 max) b a)"
proof -
  have "do { t \<leftarrow> cat_unsqueeze x y; t \<leftarrow> pooling t; squeeze1 t } =
        (if poolable x y then Some (map2 (map2 max) x y) else None)"
    for x y
    using fuse_bind[of x y Some] by simp
  then show ?thesis
    using poolable_commute[of a b] map2_map2_max_commute[of a b] by simp
qed

theorem pairwise_max_pool_commutes_witness:
  "poolable [[1, 5]] [[3, 2]] \<and>
   do { t \<leftarrow> cat_unsqueeze [[1, 5]] [[3, 2]]; t \<leftarrow> pooling t; squeeze1 t } = Some [[3, 5]] \<and>
   do { t \<leftarrow> cat_unsqueeze [[3, 2]] [[1, 5]]; t \<leftarrow> pooling t; squeeze1 t } = Some [[3, 5]]"
proof -
  have p: "poolable [[1, 5]] [[3, 2]]"
    by (simp add: poolable_def)
  show ?thesis
    using pairwise_max_pool_commutes[of "[[1, 5]]" "[[3, 2]]"] p by auto
qed

lemma count_equal_positions:
  "length (filter (\<lambda>(p, t). p = t) (zip xs ys)) =
   card {i. i < min (length xs) (length ys) \<and> xs ! i = ys ! i}"
proof -
  have "{i. i < length (zip xs ys) \<and> (case zip xs ys ! i of (p, t) \<Rightarrow> p = t)} =
        {i. i < min (length xs) (length ys) \<and> xs ! i = ys ! i}"
    by auto
  then show ?thesis
    by (simp add: length_filter_conv_card)
qed

text \<open>
  Claim C8. On two label arrays of the same length \<^verbatim>\<open>calcuate_accuracy\<close> returns the number
  of positions at which they are equal; on \<open>[0,1,2,3]\<close> and \<open>[0,1,2,2]\<close> it returns 3.
\<close>

theorem calcuate_accuracy_counts:
  "(length preds = length targets \<longrightarrow>
      calcuate_accuracy preds targets =
        Some (card {i. i < length preds \<and> preds ! i = targets ! i})) \<and>
   calcuate_accuracy [0, 1, 2, 3] [0, 1, 2, 2] = Some 3"
  by (simp add: calcuate_accuracy_def count_equal_positions)

theorem calcuate_accuracy_counts_witness:
  "length [0, 1, 2, 3::int] = length [0, 1, 2, 2::int] \<and>
   card {i. i < length [0, 1, 2, 3::int] \<and> [0, 1, 2, 3] ! i = [0, 1, 2, 2::int] ! i} = 3 \<and>
   calcuate_accuracy [0, 1, 2, 3] [0, 1, 2, 2] = Some 3"
  using calcuate_accuracy_counts[of "[0, 1, 2, 3]" "[0, 1, 2, 2]"] by auto

text \<open>
  Claim C10. Two calls of \<^verbatim>\<open>forward\<close> with the same module, the same randomness and the
  same arguments except \<^verbatim>\<open>pos_emb\<close>, which may be any two values of any two types, return
  the same result.
\<close>

theorem forward_ignores_pos_emb:
  "forward M rnd \<lparr>input_ids = i, attention_mask = m, token_type_ids = t, visual_feature = vf,
      char_density = cd, char_number = cn, parsing1 = p1, parsing2 = p2, gcn_bert_base = g,
      pos_emb = pe, visual = v\<rparr> =
   forward M rnd \<lparr>input_ids = i, attention_mask = m, token_type_ids = t, visual_feature = vf,
      char_density = cd, char_number = cn, parsing1 = p1, parsing2 = p2, gcn_bert_base = g,
      pos_emb = pe', visual = v\<rparr>"
  by (simp add: forward_def forward_concat_def forward_branches_def)

lemma forward_eval_any_draw:
  assumes "training M = False"
    and "l1 M False (enc_rnd rnd) (input_ids a) (attention_mask a) (token_type_ids a) =
         l1 M False (enc_rnd rnd') (input_ids a) (attention_mask a) (token_type_ids a)"
  shows "forward M rnd a = forward M rnd' a"
  using assms by (simp add: forward_def forward_concat_def forward_branches_def Dropout_def)

text \<open>
  Claim C5. In evaluation mode, two calls of \<^verbatim>\<open>forward\<close> on the same batch with the same
  weights return the same logits, whatever the state of the random generator at each
  call, provided the library encoder returns the same hidden state for the batch in both
  calls (its own dropout is off in evaluation mode).
\<close>

theorem forward_eval_deterministic:
  assumes "training M = False"
    and "l1 M False (enc_rnd rnd) (input_ids a) (attention_mask a) (token_type_ids a) =
         l1 M False (enc_rnd rnd') (input_ids a) (attention_mask a) (token_type_ids a)"
  shows "forward M rnd a = forward M rnd' a"
  using assms by (simp add: forward_def forward_concat_def forward_branches_def Dropout_def)

theorem forward_eval_deterministic_witness:
  "training zero_model = False \<and>
   l1 zero_model False (enc_rnd keep_all) (input_ids (two_examples 2048 ()))
      (attention_mask (two_examples 2048 ())) (token_type_ids (two_examples 2048 ())) =
   l1 zero_model False (enc_rnd drop_all) (input_ids (two_examples 2048 ()))
      (attention_mask (two_examples 2048 ())) (token_type_ids (two_examples 2048 ())) \<and>
   forward zero_model keep_all (two_examples 2048 ()) =
   forward zero_model drop_all (two_examples 2048 ()) \<and>
   forward zero_model keep_all (two_examples 2048 ()) = Some [[0, 0, 0, 0], [0, 0, 0, 0]]"
proof -
  have 1: "training zero_model = False"
    by (simp add: zero_model_layers)
  have 2: "l1 zero_model False (enc_rnd keep_all) (input_ids (two_examples 2048 ()))
      (attention_mask (two_examples 2048 ())) (token_type_ids (two_examples 2048 ())) =
   l1 zero_model False (enc_rnd drop_all) (input_ids (two_examples 2048 ()))
      (attention_mask (two_examples 2048 ())) (token_type_ids (two_examples 2048 ()))"
    by (simp add: keep_all_def drop_all_def)
  show ?thesis
    using forward_eval_deterministic[OF 1 2] 1 2 forward_two_examples[of keep_all "()"]
    by simp
qed

section \<open>The call of the module\<close>

lemma bindS_frame:
  assumes "\<And>s. the_model (snd (m s)) = the_model s"
    and "\<And>x s. the_model (snd (f x s)) = the_model s"
  shows "the_model (snd (bindS m f s)) = the_model s"
proof (cases "m s")
  case (Pair r s')
  from assms(1)[of s] Pair have s': "the_model s' = the_model s"
    by simp
  show ?thesis
  proof (cases r)
    case None
    with Pair s' show ?thesis by (simp add: bindS_def)
  next
    case (Some x)
    with Pair s' assms(2)[of x s'] show ?thesis by (simp add: bindS_def)
  qed
qed

lemma on_tensors_frame: "the_model (snd (on_tensors m s)) = the_model s"
  by (simp add: on_tensors_def)

lemma self_l1_frame: "the_model (snd (self_l1 ids m t s)) = the_model s"
  by (simp add: self_l1_def)

lemma self_linear_frame: "the_model (snd (self_linear layer x s)) = the_model s"
  by (simp add: self_linear_def)

lemma self_dropout_frame: "the_model (snd (self_dropout x s)) = the_model s"
  by (simp add: self_dropout_def)

lemma forward_st_frame: "the_model (snd (forward_st a s)) = the_model s"
  unfolding forward_st_def Let_def
  by (intro bindS_frame on_tensors_frame self_l1_frame self_linear_frame self_dropout_frame)

lemma Dropout_eval: "Dropout p False k x = x"
  by (simp add: Dropout_def)

lemma forward_st_eval:
  assumes "training (the_model s) = False"
  shows "forward_st a s = (forward (the_model s) (generator s) a, s)"
  using assms
  by (simp add: forward_st_def forward_def forward_concat_def forward_branches_def
      bindS_def on_tensors_def self_l1_def self_linear_def self_dropout_def Dropout_eval
      split: option.splits)

lemma forward_st_train:
  assumes "training (the_model s)"
  shows "fst (forward_st a s) = forward (the_model s) (generator s) a"
  using assms
  by (simp add: forward_st_def forward_def forward_concat_def forward_branches_def
      bindS_def on_tensors_def self_l1_def self_linear_def self_dropout_def eval_nat_numeral
      split: option.splits)

lemma forward_st_result: "fst (forward_st a s) = forward (the_model s) (generator s) a"
  by (cases "training (the_model s)") (simp_all add: forward_st_train forward_st_eval)

lemma forward_st_draws:
  assumes "training (the_model s)" and "forward_st a s = (Some out, s')"
  shows "s' = s\<lparr>generator := (generator s)\<lparr>keep := (\<lambda>k. keep (generator s) (k + 8))\<rparr>\<rparr>"
  using assms
  by (simp add: forward_st_def
      bindS_def on_tensors_def self_l1_def self_linear_def self_dropout_def eval_nat_numeral
      split: option.splits)

section \<open>The module with zero weights in either mode\<close>



section \<open>The loops\<close>

lemma bindE_Inr:
  "bindE m f = Inr y \<longleftrightarrow> (\<exists>x. m = Inr x \<and> f x = Inr y)"
  by (cases m) (simp_all add: bindE_def)









text \<open>The targets of the loops are long tensors, so the comparison with them is defined.\<close>

lemma to_long_rank: "(\<exists>xs. to_long t = Long1 xs) \<or> (\<exists>rows. to_long t = Long2 rows)"
  by (cases t) simp_all

lemma accuracy_of_batch_to_long: "accuracy_of_batch preds (to_long t) \<noteq> Inl TypeError"
  by (cases t) (simp_all add: accuracy_of_batch_def raising_def split: option.splits)

text \<open>
  A batch without the key \<^verbatim>\<open>gcn_bert_large\<close> makes \<^verbatim>\<open>valid\<close> raise KeyError before the
  model is called, and the dict of \<^verbatim>\<open>SentimentData.__getitem__\<close> has no such key.
\<close>

lemma getitems_missing:
  "k \<in> set ks \<Longrightarrow> data k = None \<Longrightarrow> \<exists>k'. getitems data ks = Inl (KeyError k')"
  by (induction ks) (auto simp: bindE_def split: option.splits sum.splits)

lemma valid_inputs_without_gcn_bert_large:
  assumes "data ''gcn_bert_large'' = None"
  shows "\<exists>k. valid_inputs data = Inl (KeyError k)"
proof -
  have "\<exists>k. getitems data
      [''ids'', ''mask'', ''token_type_ids'', ''targets'', ''char_density'',
        ''char_number'', ''visual_feature'', ''gcn_bert_large'', ''parsing1'', ''parsing2'',
        ''pos_emb'', ''visual''] = Inl (KeyError k)"
    by (rule getitems_missing[where k = "''gcn_bert_large''"]) (simp_all add: assms)
  then show ?thesis
    unfolding valid_inputs_def by (auto simp: bindE_def)
qed


lemma valid_without_gcn_bert_large:
  assumes "data ''gcn_bert_large'' = None"
  shows "\<exists>k. fst (valid M rnds loss_function (data # rest)) = Inl (KeyError k)"
proof -
  from valid_inputs_without_gcn_bert_large[where data = data] assms obtain k where
    "valid_inputs data = Inl (KeyError k)"
    by blast
  then show ?thesis
    by (simp add: valid_def valid_step_def)
qed

lemma tensors_at_keys:
  "tensors_at self i ps = Inr ex \<Longrightarrow> map fst ex = map fst ps"
  by (induction ps arbitrary: ex) (auto simp: bindE_Inr)

lemma SentimentData_getitem_keys:
  "SentimentData_getitem tokenize self i = Inr ex \<Longrightarrow>
   map fst ex =
     [''ids'', ''mask'', ''token_type_ids'', ''targets'', ''gcn_bert_base'', ''char_density'',
      ''char_number'', ''visual_feature'', ''parsing1'', ''parsing2'', ''pos_emb'', ''visual'']"
proof -
  assume ok: "SentimentData_getitem tokenize self i = Inr ex"
  then obtain c0 where "at_label self ''text'' i = Inr c0"
    unfolding SentimentData_getitem_def by (auto simp: bindE_Inr simp del: tensors_at.simps)
  with ok obtain ids m t ps where
    ps: "tensors_at self i
           [(''targets'', ''targets''), (''gcn_bert_base'', ''gcn_bert_base''),
            (''char_density'', ''char_density''), (''char_number'', ''char_number''),
            (''visual_feature'', ''visual_feature''), (''parsing1'', ''parsing1''),
            (''parsing2'', ''parsing2''), (''pos_emb'', ''pos_emb''),
            (''visual'', ''visual'')] = Inr ps"
    and ex: "ex = [(''ids'', Ints ids), (''mask'', Ints m), (''token_type_ids'', Ints t)] @ ps"
    unfolding SentimentData_getitem_def
    by (cases "tokenize c0") (auto simp: bindE_def simp del: tensors_at.simps split: sum.splits)
  show ?thesis
    using tensors_at_keys[OF ps] by (simp add: ex)
qed

text \<open>
  What the call \<^verbatim>\<open>model(...)\<close> of a pass gives: the result of \<^verbatim>\<open>forward\<close> on the module
  and the generator of the pass, and the module itself.
\<close>

lemma model_call:
  "\<exists>s'. forward_st a \<lparr>the_model = M, generator = rnd\<rparr> = (forward M rnd a, s') \<and>
        the_model s' = M"
proof -
  let ?s = "\<lparr>the_model = M, generator = rnd\<rparr>"
  have "fst (forward_st a ?s) = forward M rnd a" "the_model (snd (forward_st a ?s)) = M"
    by (simp_all add: forward_st_result forward_st_frame)
  then show ?thesis
    by (cases "forward_st a ?s") simp
qed


lemma max_dim1_Rank2:
  "max_dim1 (Rank2 t) = Inr (big_val, big_idx) \<Longrightarrow> big_idx = map argmax t"
  by (auto simp: max_dim1_def split: if_splits)



text \<open>
  A pass of the loop of \<^verbatim>\<open>train\<close> that raises leaves the module and the optimizer as they
  were; a pass that completes has called the model and returns the module that the
  optimizer step produced.
\<close>

lemma train_step_model:
  assumes "train_step backward_step loss_function k rnd data st M opt = (r, M', opt')"
  shows "case r of
           Inl e \<Rightarrow> M' = M \<and> opt' = opt
         | Inr st' \<Rightarrow> \<exists>targets a outputs. train_inputs data = Inr (targets, a) \<and>
                         forward M rnd a = Some outputs \<and>
                         backward_step opt M rnd a targets = (opt', M')"
proof (cases "train_inputs data")
  case (Inl e)
  with assms show ?thesis
    by (auto simp: train_step_def)
next
  case (Inr p)
  obtain targets a where p: "p = (targets, a)"
    by (cases p)
  from model_call[of a M rnd] obtain s' where
    c: "forward_st a \<lparr>the_model = M, generator = rnd\<rparr> = (forward M rnd a, s')"
    and s': "the_model s' = M"
    by blast
  show ?thesis
    using assms Inr p c s' unfolding train_step_def
    by (cases "forward M rnd a") (auto split: sum.splits prod.splits)
qed

lemma valid_step_model: "snd (valid_step M rnd loss_function data st) = M"
proof (cases "valid_inputs data")
  case (Inl e)
  then show ?thesis
    by (simp add: valid_step_def)
next
  case (Inr p)
  obtain targets a where p: "p = (targets, a)"
    by (cases p)
  from model_call[of a M rnd] obtain s' where
    "forward_st a \<lparr>the_model = M, generator = rnd\<rparr> = (forward M rnd a, s')"
    and "the_model s' = M"
    by blast
  then show ?thesis
    using Inr p unfolding valid_step_def
    by (cases "forward M rnd a") simp_all
qed

lemma valid_loop_model: "snd (valid_loop M rnds loss_function k loader st) = M"
proof (induction loader arbitrary: k st)
  case Nil
  then show ?case by simp
next
  case (Cons data rest)
  show ?case
  proof (cases "valid_step M (rnds k) loss_function data st")
    case (Pair r M')
    with valid_step_model[of M "rnds k" loss_function data st] have M': "M' = M"
      by simp
    show ?thesis
      using Pair M' Cons.IH by (cases r) simp_all
  qed
qed

lemma valid_model: "snd (valid M rnds loss_function testing_loader) = M\<lparr>training := False\<rparr>"
proof -
  let ?st0 = "\<lparr>n_correct = 0, tr_loss = 0, nb_tr_steps = 0, nb_tr_examples = 0,
                 output_list = []\<rparr>"
  show ?thesis
    using valid_loop_model[of "M\<lparr>training := False\<rparr>" rnds loss_function 0 testing_loader ?st0]
    unfolding valid_def Let_def
    by (cases "valid_loop (M\<lparr>training := False\<rparr>) rnds loss_function 0 testing_loader ?st0")
      (auto split: sum.splits)
qed

lemma test_step_model: "snd (test_step M rnd data out) = M"
proof (cases "test_inputs data")
  case (Inl e)
  then show ?thesis
    by (simp add: test_step_def)
next
  case (Inr a)
  from model_call[of a M rnd] obtain s' where
    "forward_st a \<lparr>the_model = M, generator = rnd\<rparr> = (forward M rnd a, s')"
    and "the_model s' = M"
    by blast
  then show ?thesis
    using Inr unfolding test_step_def
    by (cases "forward M rnd a") simp_all
qed

lemma test_loop_model: "snd (test_loop M rnds k loader out) = M"
proof (induction loader arbitrary: k out)
  case Nil
  then show ?case by simp
next
  case (Cons data rest)
  show ?case
  proof (cases "test_step M (rnds k) data out")
    case (Pair r M')
    with test_step_model[of M "rnds k" data out] have M': "M' = M"
      by simp
    show ?thesis
      using Pair M' Cons.IH by (cases r) simp_all
  qed
qed

lemma test_label_generator_model:
  "snd (test_label_generator M rnds testing_loader) = M\<lparr>training := False\<rparr>"
  by (simp add: test_label_generator_def test_loop_model)

text \<open>
  \<^verbatim>\<open>valid\<close> sets the evaluation mode itself: its result does not depend on the state of
  the generator in its passes, for an encoder that ignores it in evaluation mode.
\<close>

lemma valid_step_any_draw:
  assumes "training M = False"
    and "\<And>r r' i m t. l1 M False r i m t = l1 M False r' i m t"
  shows "valid_step M rnd loss_function data st = valid_step M rnd' loss_function data st"
proof (cases "valid_inputs data")
  case (Inl e)
  then show ?thesis
    by (simp add: valid_step_def)
next
  case (Inr p)
  obtain targets a where p: "p = (targets, a)"
    by (cases p)
  from model_call[of a M rnd] obtain s1 where
    c1: "forward_st a \<lparr>the_model = M, generator = rnd\<rparr> = (forward M rnd a, s1)"
    and s1: "the_model s1 = M"
    by blast
  from model_call[of a M rnd'] obtain s2 where
    c2: "forward_st a \<lparr>the_model = M, generator = rnd'\<rparr> = (forward M rnd' a, s2)"
    and s2: "the_model s2 = M"
    by blast
  have "forward M rnd a = forward M rnd' a"
    by (rule forward_eval_any_draw[OF assms(1)]) (rule assms(2))
  then show ?thesis
    unfolding valid_step_def
    by (cases "forward M rnd' a") (simp_all add: Inr p c1 c2 s1 s2)
qed

lemma valid_loop_any_draw:
  assumes "training M = False"
    and "\<And>r r' i m t. l1 M False r i m t = l1 M False r' i m t"
  shows "valid_loop M rnds loss_function k loader st =
         valid_loop M rnds' loss_function k loader st"
proof (induction loader arbitrary: k st)
  case Nil
  then show ?case by simp
next
  case (Cons data rest)
  have "snd (valid_step M (rnds' k) loss_function data st) = M"
    by (rule valid_step_model)
  then show ?case
    using valid_step_any_draw[OF assms, of "rnds k" loss_function data st "rnds' k"] Cons.IH
    by (auto split: prod.splits sum.splits)
qed

lemma valid_any_draw:
  assumes "\<And>r r' i m t. l1 M False r i m t = l1 M False r' i m t"
  shows "valid M rnds loss_function loader = valid M rnds' loss_function loader"
proof -
  have "training (M\<lparr>training := False\<rparr>) = False"
    by simp
  moreover have "l1 (M\<lparr>training := False\<rparr>) False r i m t =
                 l1 (M\<lparr>training := False\<rparr>) False r' i m t" for r r' i m t
    using assms by simp
  ultimately show ?thesis
    unfolding valid_def Let_def
    using valid_loop_any_draw[of "M\<lparr>training := False\<rparr>" rnds loss_function 0 loader _ rnds']
    by simp
qed

section \<open>The loops on two examples\<close>







section \<open>The loops and the dataset: claims\<close>




text \<open>
  Claim C9. A call of the module leaves the module object as it was: it is the
  composition of the operations of \<^verbatim>\<open>forward\<close>, none of which writes the module (in
  training mode the call does change the generator, lemma \<open>forward_st_draws\<close>). So the
  parameters after the call are those before it, and the call returns what \<open>forward\<close>
  computes from the module and the generator it starts from. \<^verbatim>\<open>valid\<close> returns the module
  that its calls of the model left, with the mode flag set to evaluation and nothing else
  changed: the encoder and every linear layer are those it was called with, also when it
  raises. A pass of \<^verbatim>\<open>train\<close> either raises and leaves the module and the optimizer as they
  were, or returns the module and the optimizer that the optimizer step gave.
\<close>

theorem forward_st_and_valid_keep_parameters:
  "the_model (snd (forward_st a s)) = the_model s \<and>
   parameters (the_model (snd (forward_st a s))) = parameters (the_model s) \<and>
   fst (forward_st a s) = forward (the_model s) (generator s) a \<and>
   snd (valid M rnds loss_function testing_loader) = M\<lparr>training := False\<rparr> \<and>
   parameters (snd (valid M rnds loss_function testing_loader)) = parameters M \<and>
   ((\<exists>e. train_step backward_step loss_function k rnd data st M opt = (Inl e, M, opt)) \<or>
    (\<exists>st' targets a.
       train_inputs data = Inr (targets, a) \<and>
       train_step backward_step loss_function k rnd data st M opt =
         (Inr st', snd (backward_step opt M rnd a targets),
          fst (backward_step opt M rnd a targets))))"
proof -
  obtain r M' opt' where
    t: "train_step backward_step loss_function k rnd data st M opt = (r, M', opt')"
    by (cases "train_step backward_step loss_function k rnd data st M opt") auto
  have "(\<exists>e. train_step backward_step loss_function k rnd data st M opt = (Inl e, M, opt)) \<or>
    (\<exists>st' targets a.
       train_inputs data = Inr (targets, a) \<and>
       train_step backward_step loss_function k rnd data st M opt =
         (Inr st', snd (backward_step opt M rnd a targets),
          fst (backward_step opt M rnd a targets)))"
  proof (cases r)
    case (Inl e)
    with train_step_model[OF t] t show ?thesis
      by simp
  next
    case (Inr st')
    with train_step_model[OF t] obtain targets a where
      "train_inputs data = Inr (targets, a)" "backward_step opt M rnd a targets = (opt', M')"
      by auto
    with t Inr show ?thesis
      by auto
  qed
  then show ?thesis
    by (simp add: forward_st_frame forward_st_result valid_model parameters_def)
qed

lemma add_visual_embedding_example:
  "add_visual_embedding dataset_table dataset_table train_visual_table test_visual_table =
     Inr (setcol dataset_table ''visual_embedding'' [(0, Vec [2])],
          setcol dataset_table ''visual_embedding'' [(0, Vec [1])])"
  by (simp add: add_visual_embedding_def getcol_def train_visual_table_def
      test_visual_table_def bindE_def)

text \<open>
  Claim C4 fails on the code. With the vector \<open>[1]\<close> in row 0 of the training visual table
  and \<open>[2]\<close> in row 0 of the testing visual table, the notebook gives row 0 of \<^verbatim>\<open>df_train\<close>
  the embedding \<open>[2]\<close> and row 0 of \<^verbatim>\<open>df_test\<close> the embedding \<open>[1]\<close>, and example 0 of the
  test set carries \<open>[1]\<close> as \<^verbatim>\<open>visual\<close>: each dataset reads the other visual table. The
  other fields of the example are those of row 0 of its own table.
\<close>

theorem visual_embedding_tables_crossed:
  "getcol train_visual_table ''visual_embedding'' = Inr [(0, Vec [1])] \<and>
   getcol test_visual_table ''visual_embedding'' = Inr [(0, Vec [2])] \<and>
   bindE (add_visual_embedding dataset_table dataset_table train_visual_table test_visual_table)
     (\<lambda>(df_train, df_test).
        bindE (getcol df_train ''visual_embedding'') (\<lambda>s_train.
        bindE (getcol df_test ''visual_embedding'') (\<lambda>s_test. Inr (s_train, s_test))))
     = Inr ([(0, Vec [2])], [(0, Vec [1])]) \<and>
   bindE (add_visual_embedding dataset_table dataset_table train_visual_table test_visual_table)
     (\<lambda>(df_train, df_test).
        bindE (test_set df_test) (\<lambda>self. SentimentData_getitem fixed_tokens self 0))
     = Inr [(''ids'', Ints [101, 102]), (''mask'', Ints [1, 1]),
            (''token_type_ids'', Ints [0, 0]), (''targets'', Num 1),
            (''gcn_bert_base'', Vec [7]), (''char_density'', Vec [2]),
            (''char_number'', Vec [3]), (''visual_feature'', Vec [4]),
            (''parsing1'', Vec [5]), (''parsing2'', Vec [6]), (''pos_emb'', Vec [8]),
            (''visual'', Vec [1])]"
proof -
  have 1: "getcol train_visual_table ''visual_embedding'' = Inr [(0, Vec [1])]"
    by (simp add: getcol_def train_visual_table_def)
  have 2: "getcol test_visual_table ''visual_embedding'' = Inr [(0, Vec [2])]"
    by (simp add: getcol_def test_visual_table_def)
  have 3: "getcol (setcol dataset_table ''visual_embedding'' [(0, Vec [v])]) ''visual_embedding''
             = Inr [(0, Vec [v])]" for v
    by (simp add: getcol_def setcol_def dataset_table_def)
  have 4: "test_set (setcol dataset_table ''visual_embedding'' [(0, Vec [1])]) =
     Inr (map_of
       [(''text'', [(0, Str ''Date:'')]), (''targets'', [(0, Num 1)]),
        (''visual_feature'', [(0, Vec [4])]), (''gcn_bert_base'', [(0, Vec [7])]),
        (''parsing1'', [(0, Vec [5])]), (''parsing2'', [(0, Vec [6])]),
        (''char_density'', [(0, Vec [2])]), (''char_number'', [(0, Vec [3])]),
        (''pos_emb'', [(0, Vec [8])]), (''visual'', [(0, Vec [1])])])"
    by (simp add: test_set_def select_def SentimentData_init_def getattr_def setcol_def
        dataset_table_def bindE_def)
  have 5: "SentimentData_getitem fixed_tokens (map_of
       [(''text'', [(0, Str ''Date:'')]), (''targets'', [(0, Num 1)]),
        (''visual_feature'', [(0, Vec [4])]), (''gcn_bert_base'', [(0, Vec [7])]),
        (''parsing1'', [(0, Vec [5])]), (''parsing2'', [(0, Vec [6])]),
        (''char_density'', [(0, Vec [2])]), (''char_number'', [(0, Vec [3])]),
        (''pos_emb'', [(0, Vec [8])]), (''visual'', [(0, Vec [1])])]) 0 =
     Inr [(''ids'', Ints [101, 102]), (''mask'', Ints [1, 1]),
            (''token_type_ids'', Ints [0, 0]), (''targets'', Num 1),
            (''gcn_bert_base'', Vec [7]), (''char_density'', Vec [2]),
            (''char_number'', Vec [3]), (''visual_feature'', Vec [4]),
            (''parsing1'', Vec [5]), (''parsing2'', Vec [6]), (''pos_emb'', Vec [8]),
            (''visual'', Vec [1])]"
    by (simp add: SentimentData_getitem_def fixed_tokens_def at_label_def torch_tensor_def
        bindE_def)
  show ?thesis
    unfolding add_visual_embedding_example
    by (simp only: bindE_def sum.case prod.case 1 2 3 4 5 simp_thms)
qed

end
